theory Spec2Isabelle
  imports Main "HOL-Library.AList" "HOL-Library.Multiset" "HOL-Library.Char_ord"
    "HOL-Library.List_Lexorder"
begin

section \<open>JavaScript values and failures\<close>

text \<open>
  The values that travel through the cache and out of the data access layer are JSON
  values. Numbers are modelled as integers (heights, timestamps, amounts and counts are
  integral columns; the rounding of IEEE doubles beyond \<open>2^53\<close> is not modelled). A
  property that JavaScript would read as \<open>undefined\<close> is an absent key of the object,
  which is also what \<open>JSON.stringify\<close> makes of it.
\<close>

datatype jsval =
    JNull
  | JBool bool
  | JNum int
  | JStr string
  | JArr "jsval list"
  | JObj "(string \<times> jsval) list"

text \<open>
  How a promise of the repository ends. \<open>Error m\<close> is \<open>reject(new Error(m))\<close>;
  \<open>TypeError\<close> is the exception of reading a property of \<open>undefined\<close>, caught by the
  chain's \<open>.catch\<close> and passed to \<open>reject\<close>; \<open>NeverSettles\<close> is a promise that is
  neither resolved nor rejected; \<open>OutsideModel\<close> marks a value read back from the cache
  whose shape is not the one the reading code takes apart (no operation modelled here
  stores such a value under that key).
\<close>

datatype failure = Error string | TypeError | NeverSettles | OutsideModel

type_synonym 'a promise = "failure + 'a"

text \<open>\<open>!data\<close>\<close>

fun falsy :: "jsval \<Rightarrow> bool" where
  "falsy JNull = True"
| "falsy (JBool b) = (\<not> b)"
| "falsy (JNum n) = (n = 0)"
| "falsy (JStr s) = (s = [])"
| "falsy (JArr xs) = False"
| "falsy (JObj kvs) = False"

text \<open>\<open>Array.isArray(data)\<close>\<close>

fun isArray :: "jsval \<Rightarrow> bool" where
  "isArray (JArr xs) = True"
| "isArray v = False"

text \<open>
  \<open>Object.keys(data).length\<close> for a value that is not \<open>null\<close>: the indices of an array or
  of a string, the own keys of an object, nothing for a number or a boolean.
\<close>

fun keysLength :: "jsval \<Rightarrow> nat" where
  "keysLength (JArr xs) = length xs"
| "keysLength (JObj kvs) = length (remdups (map fst kvs))"
| "keysLength (JStr s) = length s"
| "keysLength v = 0"

text \<open>Property reads on an object.\<close>

fun field :: "string \<Rightarrow> jsval \<Rightarrow> jsval option" where
  "field k (JObj kvs) = map_of kvs k"
| "field k v = None"

definition numField :: "string \<Rightarrow> jsval \<Rightarrow> int option" where
  "numField k v = (case field k v of Some (JNum n) \<Rightarrow> Some n | _ \<Rightarrow> None)"

definition strField :: "string \<Rightarrow> jsval \<Rightarrow> string option" where
  "strField k v = (case field k v of Some (JStr s) \<Rightarrow> Some s | _ \<Rightarrow> None)"

definition arrField :: "string \<Rightarrow> jsval \<Rightarrow> jsval list option" where
  "arrField k v = (case field k v of Some (JArr xs) \<Rightarrow> Some xs | _ \<Rightarrow> None)"

text \<open>\<open>delete obj[k]\<close>\<close>

fun deleteField :: "string \<Rightarrow> jsval \<Rightarrow> jsval" where
  "deleteField k (JObj kvs) = JObj (filter (\<lambda>kv. fst kv \<noteq> k) kvs)"
| "deleteField k v = v"

section \<open>The Redis cache (class RedisCache)\<close>

text \<open>
  What a Redis key holds: the text written by \<open>set\<close>. A value that is not a string is
  written as \<open>JSON.stringify(value)\<close>, which \<open>JSON.parse\<close> reads back as the same JSON
  value (\<open>Json\<close>); a string is written as it is (\<open>Raw\<close>) and read back through
  \<open>JSON.parse\<close> all the same. \<open>JSON.parse\<close> on an arbitrary text and the keyed digest
  \<open>sha256\<close> are taken as parameters of the cache; \<open>jsonParse s = None\<close> is a text that
  \<open>JSON.parse\<close> throws on. Each entry carries the time (in seconds) at which it expires.
  Errors of the Redis connection itself are not modelled.
\<close>

datatype stored = Json jsval | Raw string

record redis =
  sha256 :: "string \<Rightarrow> string"
  jsonParse :: "string \<Rightarrow> jsval option"
  defaultTTL :: nat
  store :: "string \<rightharpoonup> (stored \<times> nat)"

text \<open>
  \<open>get (keyName)\<close>: the reply is \<open>null\<close> for an absent or expired key, and
  \<open>JSON.parse(null)\<close> is \<open>null\<close>. When \<open>JSON.parse\<close> throws inside the client's callback
  the promise is never settled: the result is \<open>None\<close>.
\<close>

definition RedisCache_get :: "redis \<Rightarrow> nat \<Rightarrow> string \<Rightarrow> jsval option" where
  "RedisCache_get r now keyName =
     (case store r (sha256 r keyName) of
        None \<Rightarrow> Some JNull
      | Some (t, expiresAt) \<Rightarrow>
          if now < expiresAt
          then (case t of Json v \<Rightarrow> Some v | Raw s \<Rightarrow> jsonParse r s)
          else Some JNull)"

text \<open>\<open>set (keyName, value, ttl)\<close>: \<open>SET key value EX (ttl || defaultTTL)\<close>.\<close>

definition RedisCache_set :: "redis \<Rightarrow> nat \<Rightarrow> string \<Rightarrow> jsval \<Rightarrow> nat \<Rightarrow> redis promise" where
  "RedisCache_set r now keyName v ttl =
     (if falsy v then Inl (Error ''Cannot save value that does not exist'')
      else Inr (r\<lparr>store := (store r)
             (sha256 r keyName \<mapsto>
                ((case v of JStr s \<Rightarrow> Raw s | _ \<Rightarrow> Json v),
                 now + (if ttl = 0 then defaultTTL r else ttl)))\<rparr>))"

section \<open>checkCache and setCache (class DatabaseBackend)\<close>

text \<open>
  \<open>this.cache\<close> is only set when Redis is enabled: the cache of the backend is a
  \<open>redis option\<close>. \<open>checkCache\<close> resolves \<open>false\<close> for a miss and the cached data for a
  hit; \<open>None\<close> is the promise that never settles.
\<close>

definition checkCache :: "redis option \<Rightarrow> nat \<Rightarrow> string \<Rightarrow> jsval option" where
  "checkCache cache now key =
     (case cache of
        None \<Rightarrow> Some (JBool False)
      | Some r \<Rightarrow>
          (case RedisCache_get r now key of
             None \<Rightarrow> None
           | Some data \<Rightarrow>
               if falsy data then Some (JBool False)
               else if isArray data \<and> keysLength data = 0 then Some (JBool False)
               else if keysLength data = 0 then Some (JBool False)
               else Some data))"

text \<open>
  \<open>setCache\<close> always resolves the value it was given; the cache is written when there is
  one and \<open>set\<close> does not reject.
\<close>

definition setCache :: "redis option \<Rightarrow> nat \<Rightarrow> string \<Rightarrow> jsval \<Rightarrow> nat \<Rightarrow> jsval \<times> redis option" where
  "setCache cache now key v ttl =
     (case cache of
        None \<Rightarrow> (v, None)
      | Some r \<Rightarrow>
          (case RedisCache_set r now key v ttl of
             Inl e \<Rightarrow> (v, Some r)
           | Inr r' \<Rightarrow> (v, Some r')))"

text \<open>A hit is anything but the \<open>false\<close> of a miss.\<close>

definition isMiss :: "jsval option \<Rightarrow> bool" where
  "isMiss c = (c = Some (JBool False))"

section \<open>checkBlockCount\<close>

text \<open>
  The block count of a request is a number or absent (\<open>None\<close>);
  \<open>blockCount || 100\<close> replaces an absent count and the count 0.
\<close>

definition checkBlockCount :: "int option \<Rightarrow> int" where
  "checkBlockCount blockCount =
     (let b1 = (case blockCount of None \<Rightarrow> 100 | Some b \<Rightarrow> if b = 0 then 100 else b);
          b2 = \<bar>b1\<bar>
      in if b2 > 100 then 100 else b2)"

section \<open>The relational store\<close>

text \<open>
  The store is a collaborator that answers queries over a fixed schema. Each table is the
  list of its rows. Numeric columns are integers. The columns of \<open>blocks\<close> are those of
  the block header of the data model.
\<close>

record block_row =
  blk_hash :: string
  blk_height :: int
  blk_timestamp :: int
  blk_difficulty :: int
  blk_nonce :: int
  blk_size :: int
  blk_alreadyGeneratedCoins :: int
  blk_baseReward :: int

record txn_row =
  txn_txnHash :: string
  txn_blockHash :: string
  txn_publicKey :: string
  txn_paymentId :: string
  txn_unlockTime :: int
  txn_size :: int
  txn_fee :: int
  txn_totalInputsAmount :: int
  txn_totalOutputsAmount :: int
  txn_mixin :: int
  txn_extra :: "int list"

record input_row =
  inp_txnHash :: string
  inp_type :: nat
  inp_amount :: int
  inp_keyImage :: string

record output_row =
  out_txnHash :: string
  out_type :: nat
  out_amount :: int
  out_globalIndex :: int
  out_outputIndex :: int
  out_key :: string

record maximum_row =
  max_amount :: int
  max_globalIndex :: int

record database =
  blocks :: "block_row list"
  transactions :: "txn_row list"
  transaction_inputs :: "input_row list"
  transaction_outputs :: "output_row list"
  transaction_pool :: "string list"
  transaction_outputs_index_maximums :: "maximum_row list"
  queryError :: "string \<Rightarrow> string option"

text \<open>
  \<open>transaction_pool\<close> lists the \<open>txnHash\<close> column of the pool, the only one read here.

  \<open>query\<close> rejects with the error of the driver when the store fails a query
  (\<open>if (error) return reject(error)\<close>). \<open>queryError\<close> gives, for a table, the message of the
  error with which the store fails the queries on that table, or \<open>None\<close> when it answers
  them. It is read by the fetches of the rows of a block (\<open>getTransactionsByBlock\<close>,
  \<open>getTransactionInputs\<close> and \<open>getTransactionOutputs\<close>); the other operations are modelled
  on a store that answers.

  \<open>ORDER BY\<close> is a stable sort of the table order, so rows that tie stay in table order.
  A text column is compared character by character, by character code.
\<close>

definition orderBy :: "('a \<Rightarrow> int) \<Rightarrow> 'a list \<Rightarrow> 'a list" where
  "orderBy f rows = sort_key f rows"

definition orderByDesc :: "('a \<Rightarrow> int) \<Rightarrow> 'a list \<Rightarrow> 'a list" where
  "orderByDesc f rows = sort_key (\<lambda>r. - f r) rows"

definition orderByText :: "('a \<Rightarrow> string) \<Rightarrow> 'a list \<Rightarrow> 'a list" where
  "orderByText f rows = sort_key f rows"

subsection \<open>Numbers as text\<close>

text \<open>The decimal and the hexadecimal text of a number, as string concatenation and
  \<open>toString(16)\<close> give them.\<close>

definition digitChar :: "nat \<Rightarrow> char" where
  "digitChar d = ''0123456789abcdef'' ! d"

function showBase :: "nat \<Rightarrow> nat \<Rightarrow> string" where
  "showBase b n =
     (if b < 2 \<or> n < b then [digitChar n] else showBase b (n div b) @ [digitChar (n mod b)])"
  by pat_completeness auto
termination
  by (relation "measure snd") auto

declare showBase.simps [simp del]

definition showInt :: "int \<Rightarrow> string" where
  "showInt i = (if i < 0 then CHR ''-'' # showBase 10 (nat (- i)) else showBase 10 (nat i))"

text \<open>\<open>type.toString(16).padStart(2, '0')\<close>\<close>

definition typeHex :: "nat \<Rightarrow> string" where
  "typeHex t = (let s = showBase 16 t in if length s < 2 then CHR ''0'' # s else s)"

subsection \<open>Rows as JavaScript objects\<close>

definition blockFields :: "block_row \<Rightarrow> (string \<times> jsval) list" where
  "blockFields b =
     [(''hash'', JStr (blk_hash b)), (''height'', JNum (blk_height b)),
      (''timestamp'', JNum (blk_timestamp b)), (''difficulty'', JNum (blk_difficulty b)),
      (''nonce'', JNum (blk_nonce b)), (''size'', JNum (blk_size b)),
      (''alreadyGeneratedCoins'', JNum (blk_alreadyGeneratedCoins b)),
      (''baseReward'', JNum (blk_baseReward b))]"

text \<open>The header object: the row, then \<open>obj.depth\<close> and \<open>obj.transactionCount\<close>.\<close>

definition headerObj :: "block_row \<Rightarrow> int \<Rightarrow> int \<Rightarrow> jsval" where
  "headerObj b depth transactionCount =
     JObj (blockFields b @ [(''depth'', JNum depth), (''transactionCount'', JNum transactionCount)])"

text \<open>A row of \<open>SELECT transactions.*, CAST(unlockTime AS CHAR) AS unlockTimeString\<close>;
  the \<open>extra\<close> column is a buffer, in its JSON form.\<close>

definition txnObj :: "txn_row \<Rightarrow> jsval" where
  "txnObj t =
     JObj [(''txnHash'', JStr (txn_txnHash t)), (''blockHash'', JStr (txn_blockHash t)),
           (''publicKey'', JStr (txn_publicKey t)), (''paymentId'', JStr (txn_paymentId t)),
           (''unlockTime'', JNum (txn_unlockTime t)), (''size'', JNum (txn_size t)),
           (''fee'', JNum (txn_fee t)),
           (''totalInputsAmount'', JNum (txn_totalInputsAmount t)),
           (''totalOutputsAmount'', JNum (txn_totalOutputsAmount t)),
           (''mixin'', JNum (txn_mixin t)),
           (''extra'', JObj [(''type'', JStr ''Buffer''), (''data'', JArr (map JNum (txn_extra t)))]),
           (''unlockTimeString'', JStr (showInt (txn_unlockTime t)))]"

text \<open>Input and output rows after \<open>results[i].type = results[i].type.toString(16).padStart(2, '0')\<close>.\<close>

definition inputObj :: "input_row \<Rightarrow> jsval" where
  "inputObj i =
     JObj [(''txnHash'', JStr (inp_txnHash i)), (''type'', JStr (typeHex (inp_type i))),
           (''amount'', JNum (inp_amount i)), (''keyImage'', JStr (inp_keyImage i))]"

definition outputObj :: "output_row \<Rightarrow> jsval" where
  "outputObj p =
     JObj [(''txnHash'', JStr (out_txnHash p)), (''type'', JStr (typeHex (out_type p))),
           (''amount'', JNum (out_amount p)), (''globalIndex'', JNum (out_globalIndex p)),
           (''outputIndex'', JNum (out_outputIndex p)), (''key'', JStr (out_key p))]"

section \<open>Block headers\<close>

text \<open>
  Every read of the class has the same shape:
  \<^verbatim>\<open>
  this.checkCache(cacheName)
    .then(cached => { if (cached) return resolve(cached) })
    .then(() => { return this.query(...) })
    ...
    .then(() => { this.setCache(cacheName, obj, ttl) })
    .then(() => { return resolve(obj) })
    .catch((error) => { return reject(error) })
  \<close>
  On a hit the promise is resolved with the cached value, but the first handler returns
  \<open>undefined\<close> and the chain goes on: the store is queried and the cache is written
  again, and the later \<open>resolve\<close> or \<open>reject\<close> has no effect on the settled promise.
  So every operation returns the pair of what the promise settles to and the cache it
  leaves; the time \<open>now\<close> (seconds) is that of the call.
\<close>

text \<open>\<open>SELECT * FROM blocks ORDER BY height DESC LIMIT 1\<close>\<close>

definition selectLastBlock :: "database \<Rightarrow> block_row list" where
  "selectLastBlock db = take 1 (orderByDesc blk_height (blocks db))"

text \<open>\<open>SELECT COUNT(*) AS transactionCount FROM transactions WHERE blockHash = ?\<close>:
  always one row.\<close>

definition selectTransactionCount :: "database \<Rightarrow> string \<Rightarrow> int" where
  "selectTransactionCount db h = int (length (filter (\<lambda>t. txn_blockHash t = h) (transactions db)))"

definition getLastBlockHeader :: "database \<Rightarrow> redis option \<Rightarrow> nat \<Rightarrow> jsval promise \<times> redis option" where
  "getLastBlockHeader db cache now =
     (case checkCache cache now ''getLastBlockHeader'' of
        None \<Rightarrow> (Inl NeverSettles, cache)
      | Some cached \<Rightarrow>
          let (r, cache') =
                (case selectLastBlock db of
                   [] \<Rightarrow> (Inl (Error ''No blocks found in backend storage''), cache)
                 | b # bs \<Rightarrow>
                     let obj = headerObj b 0 (selectTransactionCount db (blk_hash b))
                     in (Inr obj, snd (setCache cache now ''getLastBlockHeader'' obj 5)))
          in (if falsy cached then r else Inr cached, cache'))"

text \<open>
  The body shared by \<open>getBlockHeaderByHash\<close> and \<open>getBlockHeaderByHeight\<close>, which differ
  in the cache name and in the \<open>WHERE\<close> clause of \<open>SELECT * FROM blocks WHERE ... LIMIT 1\<close>.
  \<open>topHeight = block.height\<close> is read from whatever \<open>getLastBlockHeader\<close> resolved.
\<close>

definition getBlockHeaderBy ::
  "string \<Rightarrow> (block_row \<Rightarrow> bool) \<Rightarrow> database \<Rightarrow> redis option \<Rightarrow> nat \<Rightarrow> jsval promise \<times> redis option" where
  "getBlockHeaderBy cacheName wh db cache now =
     (case checkCache cache now cacheName of
        None \<Rightarrow> (Inl NeverSettles, cache)
      | Some cached \<Rightarrow>
          let (top, c1) = getLastBlockHeader db cache now;
              (r, c2) =
                (case top of
                   Inl e \<Rightarrow> (Inl e, c1)
                 | Inr block \<Rightarrow>
                     (case take 1 (filter wh (blocks db)) of
                        [] \<Rightarrow> (Inl (Error ''Requested block not found''), c1)
                      | b # bs \<Rightarrow>
                          (case numField ''height'' block of
                             None \<Rightarrow> (Inl OutsideModel, c1)
                           | Some topHeight \<Rightarrow>
                               let obj = headerObj b (topHeight - blk_height b)
                                           (selectTransactionCount db (blk_hash b))
                               in (Inr obj, snd (setCache c1 now cacheName obj 10)))))
          in (if falsy cached then r else Inr cached, c2))"

definition getBlockHeaderByHash ::
  "database \<Rightarrow> redis option \<Rightarrow> nat \<Rightarrow> string \<Rightarrow> jsval promise \<times> redis option" where
  "getBlockHeaderByHash db cache now blockHash =
     getBlockHeaderBy (''getBlockHeaderByHash'' @ blockHash) (\<lambda>b. blk_hash b = blockHash) db cache now"

definition getBlockHeaderByHeight ::
  "database \<Rightarrow> redis option \<Rightarrow> nat \<Rightarrow> int \<Rightarrow> jsval promise \<times> redis option" where
  "getBlockHeaderByHeight db cache now height =
     getBlockHeaderBy (''getBlockHeaderByHeight'' @ showInt height) (\<lambda>b. blk_height b = height) db cache now"

section \<open>Transactions, inputs and outputs\<close>

text \<open>\<open>checkTrim\<close>: with \<open>trim\<close>, \<open>delete txns[i].txnHash\<close> for every row.\<close>

definition checkTrim :: "bool \<Rightarrow> jsval \<Rightarrow> jsval" where
  "checkTrim trim txns =
     (if trim then (case txns of JArr rows \<Rightarrow> JArr (map (deleteField ''txnHash'') rows) | v \<Rightarrow> v)
      else txns)"

text \<open>\<open>SELECT * FROM transaction_inputs WHERE txnHash = ? ORDER BY amount, keyImage\<close>\<close>

text \<open>Ordered by \<open>amount\<close>, and by \<open>keyImage\<close> among the rows of one amount.\<close>

definition selectInputs :: "database \<Rightarrow> string \<Rightarrow> input_row list" where
  "selectInputs db h =
     orderBy inp_amount (orderByText inp_keyImage (filter (\<lambda>i. inp_txnHash i = h) (transaction_inputs db)))"

text \<open>
  A query that the store fails rejects the promise, unless a hit has resolved it before.
  With no row the promise is resolved with \<open>[]\<close> and nothing is cached. Otherwise the rows
  are handed to \<open>setCache\<close>, which serialises them at once, and only then trimmed.
\<close>

definition getTransactionInputs ::
  "database \<Rightarrow> redis option \<Rightarrow> nat \<Rightarrow> string \<Rightarrow> bool \<Rightarrow> jsval promise \<times> redis option" where
  "getTransactionInputs db cache now h trim =
     (case checkCache cache now (''getTransactionInputs'' @ h) of
        None \<Rightarrow> (Inl NeverSettles, cache)
      | Some cached \<Rightarrow>
          let (r, cache') =
                (case queryError db ''transaction_inputs'' of
                   Some e \<Rightarrow> (Inl (Error e), cache)
                 | None \<Rightarrow>
                (case selectInputs db h of
                   [] \<Rightarrow> (Inr (JArr []), cache)
                 | i # is \<Rightarrow>
                     let (results, c1) = setCache cache now (''getTransactionInputs'' @ h)
                                           (JArr (map inputObj (i # is))) 60
                     in (Inr (checkTrim trim results), c1)))
          in (if falsy cached then r else Inr cached, cache'))"

text \<open>
  \<open>SELECT * FROM transaction_outputs WHERE txnHash = ? ORDER BY outputIndex\<close>. The legacy
  block builder can call this with an \<open>undefined\<close> hash (\<open>None\<close>): the cache name then ends
  in \<open>undefined\<close> and the query, comparing with \<open>NULL\<close>, selects nothing.
\<close>

definition selectOutputs :: "database \<Rightarrow> string option \<Rightarrow> output_row list" where
  "selectOutputs db h =
     (case h of
        None \<Rightarrow> []
      | Some h' \<Rightarrow> orderBy out_outputIndex (filter (\<lambda>p. out_txnHash p = h') (transaction_outputs db)))"

definition getTransactionOutputs ::
  "database \<Rightarrow> redis option \<Rightarrow> nat \<Rightarrow> string option \<Rightarrow> bool \<Rightarrow> jsval promise \<times> redis option" where
  "getTransactionOutputs db cache now h trim =
     (let cacheName = ''getTransactionOutputs'' @ (case h of None \<Rightarrow> ''undefined'' | Some h' \<Rightarrow> h')
      in case checkCache cache now cacheName of
        None \<Rightarrow> (Inl NeverSettles, cache)
      | Some cached \<Rightarrow>
          let (r, cache') =
                (case queryError db ''transaction_outputs'' of
                   Some e \<Rightarrow> (Inl (Error e), cache)
                 | None \<Rightarrow>
                (case selectOutputs db h of
                   [] \<Rightarrow> (Inr (JArr []), cache)
                 | p # ps \<Rightarrow>
                     let (results, c1) = setCache cache now cacheName
                                           (JArr (map outputObj (p # ps))) 60
                     in (Inr (checkTrim trim results), c1)))
          in (if falsy cached then r else Inr cached, cache'))"

text \<open>
  \<open>SELECT transactions.*, ... FROM transactions WHERE blockHash = ?\<close>; with no row the
  result is \<open>[]\<close> and nothing is cached.
\<close>

definition getTransactionsByBlock ::
  "database \<Rightarrow> redis option \<Rightarrow> nat \<Rightarrow> string \<Rightarrow> jsval promise \<times> redis option" where
  "getTransactionsByBlock db cache now blockHash =
     (case checkCache cache now (''getTransactionsByBlock'' @ blockHash) of
        None \<Rightarrow> (Inl NeverSettles, cache)
      | Some cached \<Rightarrow>
          let (r, cache') =
                (case queryError db ''transactions'' of
                   Some e \<Rightarrow> (Inl (Error e), cache)
                 | None \<Rightarrow>
                (case filter (\<lambda>t. txn_blockHash t = blockHash) (transactions db) of
                   [] \<Rightarrow> (Inr (JArr []), cache)
                 | t # ts \<Rightarrow>
                     let (rows, c1) = setCache cache now (''getTransactionsByBlock'' @ blockHash)
                                        (JArr (map txnObj (t # ts))) 120
                     in (Inr rows, c1)))
          in (if falsy cached then r else Inr cached, cache'))"



section \<open>Example data\<close>

definition exRedis :: redis where
  "exRedis = \<lparr>sha256 = (\<lambda>k. k), jsonParse = (\<lambda>s. None), defaultTTL = 30, store = Map.empty\<rparr>"

definition exBlock :: "string \<Rightarrow> int \<Rightarrow> int \<Rightarrow> block_row" where
  "exBlock h n t = \<lparr>blk_hash = h, blk_height = n, blk_timestamp = t, blk_difficulty = 1,
     blk_nonce = 0, blk_size = 1, blk_alreadyGeneratedCoins = 0, blk_baseReward = 0\<rparr>"

definition exChain10 :: database where
  "exChain10 = \<lparr>blocks = [exBlock ''b5'' 5 50, exBlock ''b10'' 10 100], transactions = [],
     transaction_inputs = [], transaction_outputs = [], transaction_pool = [],
     transaction_outputs_index_maximums = [], queryError = (\<lambda>t. None)\<rparr>"

definition exChain12 :: database where
  "exChain12 = exChain10\<lparr>blocks := [exBlock ''b5'' 5 50, exBlock ''b10'' 10 100, exBlock ''b12'' 12 120]\<rparr>"

definition exInput :: "string \<Rightarrow> int \<Rightarrow> string \<Rightarrow> input_row" where
  "exInput h a k = \<lparr>inp_txnHash = h, inp_type = 2, inp_amount = a, inp_keyImage = k\<rparr>"

definition exOutput :: "string \<Rightarrow> int \<Rightarrow> int \<Rightarrow> int \<Rightarrow> string \<Rightarrow> output_row" where
  "exOutput h a g i k = \<lparr>out_txnHash = h, out_type = 2, out_amount = a, out_globalIndex = g,
     out_outputIndex = i, out_key = k\<rparr>"

definition exTxn :: "string \<Rightarrow> string \<Rightarrow> int \<Rightarrow> int \<Rightarrow> int \<Rightarrow> txn_row" where
  "exTxn h b ins outs fee = \<lparr>txn_txnHash = h, txn_blockHash = b, txn_publicKey = ''pk'',
     txn_paymentId = [], txn_unlockTime = 0, txn_size = 1, txn_fee = fee,
     txn_totalInputsAmount = ins, txn_totalOutputsAmount = outs, txn_mixin = 0, txn_extra = []\<rparr>"

text \<open>One block with one transaction, which spends 100 into outputs of 90 and pays a fee of 10.\<close>

definition exSpend :: database where
  "exSpend = \<lparr>blocks = [exBlock ''b1'' 1 10], transactions = [exTxn ''aa'' ''b1'' 100 90 10],
     transaction_inputs = [exInput ''aa'' 100 ''k1''],
     transaction_outputs = [exOutput ''aa'' 90 0 0 ''o1''], transaction_pool = [],
     transaction_outputs_index_maximums = [], queryError = (\<lambda>t. None)\<rparr>"

section \<open>The sync height resolver\<close>

text \<open>
  \<open>JSON.stringify\<close> of an array of block hashes, as it enters a cache name. Hashes are
  hexadecimal digests, so no character of them is escaped.
\<close>

fun joinWith :: "string \<Rightarrow> string list \<Rightarrow> string" where
  "joinWith sep [] = []"
| "joinWith sep [x] = x"
| "joinWith sep (x # y # ys) = x @ sep @ joinWith sep (y # ys)"

definition stringifyHashes :: "string list \<Rightarrow> string" where
  "stringifyHashes hs =
     ''['' @ joinWith '','' (map (\<lambda>h. [CHR 0x22] @ h @ [CHR 0x22]) hs) @ '']''"

text \<open>
  The characters of a string that \<open>JSON.stringify\<close> does not escape: all but the double
  quote, the backslash and the control characters.
\<close>

definition jsonPlain :: "string \<Rightarrow> bool" where
  "jsonPlain h = list_all (\<lambda>c. c \<noteq> CHR 0x22 \<and> c \<noteq> CHR 0x5C \<and> 32 \<le> (of_char c :: nat)) h"

text \<open>
  The query for the known hashes is built as text: every hash is put between single
  quotes by \<open>util.format('\'%s\'', hash)\<close>, the quoted hashes are joined by commas, and the
  result is pasted between the parentheses of
  \<open>SELECT height FROM blocks WHERE hash IN (%s) ORDER BY height DESC LIMIT 1\<close>.
  The hashes are not escaped and the query has no placeholder.
\<close>

definition sqlQuote :: char where
  "sqlQuote = CHR 0x27"

definition criteria :: "string list \<Rightarrow> string" where
  "criteria knownBlockHashes = joinWith '','' (map (\<lambda>hash. [sqlQuote] @ hash @ [sqlQuote]) knownBlockHashes)"

text \<open>
  What the store reads between the parentheses. A string literal starts at a single
  quote and ends at the next single quote that is not doubled; a doubled single quote
  inside a literal is one single quote of the string. \<open>Literals\<close>: the text is a list of
  literals separated by commas, and the query compares \<open>hash\<close> with these strings.
  \<open>Unterminated\<close>: the text ends inside a literal; the rest of the query has no single
  quote, so the literal never ends and the store fails the query with a parse error.
  \<open>Unreadable\<close>: any other text (a backslash, or something else than a comma after a
  literal), which may be another query; what the store does with it is outside the
  model.
\<close>

datatype in_list = Literals "string list" | Unterminated | Unreadable

datatype reader = Start | Inside string | After string

fun readInList :: "reader \<Rightarrow> string list \<Rightarrow> string \<Rightarrow> in_list" where
  "readInList Start literals [] = Unreadable"
| "readInList Start literals (c # cs) =
     (if c = sqlQuote then readInList (Inside []) literals cs else Unreadable)"
| "readInList (Inside literal) literals [] = Unterminated"
| "readInList (Inside literal) literals (c # cs) =
     (if c = CHR 0x5C then Unreadable
      else if c = sqlQuote then readInList (After literal) literals cs
      else readInList (Inside (literal @ [c])) literals cs)"
| "readInList (After literal) literals [] = Literals (literals @ [literal])"
| "readInList (After literal) literals (c # cs) =
     (if c = sqlQuote then readInList (Inside (literal @ [sqlQuote])) literals cs
      else if c = CHR '','' then readInList Start (literals @ [literal]) cs
      else Unreadable)"

text \<open>
  \<open>... WHERE hash IN (literals) ORDER BY height DESC LIMIT 1\<close>, for the literals that the
  store read.
\<close>

definition selectTopKnownHeight :: "database \<Rightarrow> string list \<Rightarrow> int list" where
  "selectTopKnownHeight db literals =
     map blk_height (take 1 (orderByDesc blk_height (filter (\<lambda>b. blk_hash b \<in> set literals) (blocks db))))"

text \<open>
  The query of the known hashes as the store answers it: the rows, or the error of the
  driver. The message of the parse error is given by its code.
\<close>

definition queryTopKnownHeight :: "database \<Rightarrow> string list \<Rightarrow> int list promise" where
  "queryTopKnownHeight db knownBlockHashes =
     (case readInList Start [] (criteria knownBlockHashes) of
        Literals literals \<Rightarrow> Inr (selectTopKnownHeight db literals)
      | Unterminated \<Rightarrow> Inl (Error ''ER_PARSE_ERROR'')
      | Unreadable \<Rightarrow> Inl OutsideModel)"

text \<open>\<open>SELECT height FROM blocks WHERE timestamp <= ? ORDER BY height DESC LIMIT 1\<close>\<close>

definition selectTopHeightBefore :: "database \<Rightarrow> int \<Rightarrow> int list" where
  "selectTopHeightBefore db ts =
     map blk_height (take 1 (orderByDesc blk_height (filter (\<lambda>b. blk_timestamp b \<le> ts) (blocks db))))"

text \<open>
  Numbers are IEEE doubles in the code and integers here. The two agree on the integers
  of magnitude below \<open>2^53\<close>, where \<open>height + 1\<close> and the comparisons are exact.
\<close>

definition safeInteger :: "int \<Rightarrow> bool" where
  "safeInteger n = (- (2 ^ 53) < n \<and> n < 2 ^ 53)"

text \<open>
  \<open>startHeight\<close> and \<open>startTimestamp\<close> may be absent (\<open>None\<close>); \<open>x || 0\<close> makes them 0 then.
  A step of the chain that issues no query hands \<open>undefined\<close> to the next one, which is
  \<open>None\<close> for \<open>rows\<close>. A query that the store fails rejects the promise, unless a hit has
  resolved it before, and skips the rest of the chain. A call with a hash that
  \<open>JSON.stringify\<close> escapes, or that reads a number that is not a safe integer, is outside
  the model.
\<close>

definition findCurrentSyncHeight ::
  "database \<Rightarrow> redis option \<Rightarrow> nat \<Rightarrow> string list \<Rightarrow> int option \<Rightarrow> int option
     \<Rightarrow> jsval promise \<times> redis option" where
  "findCurrentSyncHeight db cache now knownBlockHashes startHeight0 startTimestamp0 =
     (let startHeight = (case startHeight0 of None \<Rightarrow> 0 | Some h \<Rightarrow> h);
          startTimestamp = (case startTimestamp0 of None \<Rightarrow> 0 | Some t \<Rightarrow> t);
          cacheName = ''findCurrentSyncHeight'' @ stringifyHashes knownBlockHashes
                        @ showInt startHeight @ showInt startTimestamp
      in if list_all jsonPlain knownBlockHashes \<and> safeInteger startHeight
            \<and> safeInteger startTimestamp
         then
     (case checkCache cache now cacheName of
        None \<Rightarrow> (Inl NeverSettles, cache)
      | Some cached \<Rightarrow>
         (case (if length knownBlockHashes > 0
                then map_sum id Some (queryTopKnownHeight db knownBlockHashes) else Inr None) of
            Inl OutsideModel \<Rightarrow> (Inl OutsideModel, cache)
          | Inl e \<Rightarrow> (if falsy cached then Inl e else Inr cached, cache)
          | Inr rows1 \<Rightarrow>
          let syncStart1 = (case rows1 of Some [h] \<Rightarrow> h + 1 | _ \<Rightarrow> 0);
              rows2 = (if startTimestamp > 0
                       then Some (selectTopHeightBefore db startTimestamp) else None);
              syncStart2 = (case rows2 of
                              Some [h] \<Rightarrow> if h > syncStart1 then h else syncStart1
                            | _ \<Rightarrow> syncStart1);
              syncStart3 = (if startHeight > syncStart2 then startHeight else syncStart2);
              (result, cache') = setCache cache now cacheName (JNum syncStart3) 60
          in if \<not> list_all safeInteger
                    ((case rows1 of Some hs \<Rightarrow> hs | None \<Rightarrow> []) @ (case rows2 of Some hs \<Rightarrow> hs | None \<Rightarrow> []))
             then (Inl OutsideModel, cache)
             else (if falsy cached then Inr result else Inr cached, cache')))
         else (Inl OutsideModel, cache))"

text \<open>The cache name of a call, for statements about its entry.\<close>

definition syncHeightCacheName :: "string list \<Rightarrow> int option \<Rightarrow> int option \<Rightarrow> string" where
  "syncHeightCacheName knownBlockHashes startHeight0 startTimestamp0 =
     ''findCurrentSyncHeight'' @ stringifyHashes knownBlockHashes
       @ showInt (case startHeight0 of None \<Rightarrow> 0 | Some h \<Rightarrow> h)
       @ showInt (case startTimestamp0 of None \<Rightarrow> 0 | Some t \<Rightarrow> t)"

text \<open>
  The entry of a cache name holds nothing (or has expired) or a number, which is all
  that \<open>findCurrentSyncHeight\<close> ever stores under its name.
\<close>

definition numberOrAbsent :: "redis option \<Rightarrow> nat \<Rightarrow> string \<Rightarrow> bool" where
  "numberOrAbsent cache now key =
     (case cache of
        None \<Rightarrow> True
      | Some r \<Rightarrow>
          (case RedisCache_get r now key of
             Some JNull \<Rightarrow> True
           | Some (JNum n) \<Rightarrow> True
           | _ \<Rightarrow> False))"

definition exChain100 :: database where
  "exChain100 = exChain10\<lparr>blocks := [exBlock ''b99'' 99 990, exBlock ''b100'' 100 1000,
     exBlock ''b101'' 101 1010]\<rparr>"

text \<open>
  Two strings that are the hash of no block: \<open>zz','b100\<close>, and \<open>b100'\<close>.
\<close>

definition exSplitHash :: string where
  "exSplitHash = ''zz'' @ [sqlQuote] @ '','' @ [sqlQuote] @ ''b100''"

definition exOpenHash :: string where
  "exOpenHash = ''b100'' @ [sqlQuote]"

section \<open>Transaction status\<close>

text \<open>The result object of \<open>getTransactionsStatus\<close>.\<close>

definition statusObj :: "string list \<Rightarrow> string list \<Rightarrow> string list \<Rightarrow> jsval" where
  "statusObj inPool inBlock unknown =
     JObj [(''status'', JStr ''OK''),
           (''transactionsInPool'', JArr (map JStr inPool)),
           (''transactionsInBlock'', JArr (map JStr inBlock)),
           (''transactionsUnknown'', JArr (map JStr unknown))]"

text \<open>
  The two queries are \<open>SELECT txnHash FROM ... WHERE txnHash = ? OR txnHash = ? ...\<close>, with
  one criterion for each hash. With no hash the text ends in \<open>WHERE\<close>, the store rejects
  it as malformed and the call rejects with that error. \<open>hashes.forEach\<close> then keeps the
  hashes found in neither result.
\<close>

definition getTransactionsStatus ::
  "database \<Rightarrow> redis option \<Rightarrow> nat \<Rightarrow> string list \<Rightarrow> jsval promise \<times> redis option" where
  "getTransactionsStatus db cache now hashes =
     (let cacheName = ''getTransactionsStatus'' @ stringifyHashes hashes
      in case checkCache cache now cacheName of
        None \<Rightarrow> (Inl NeverSettles, cache)
      | Some cached \<Rightarrow>
          let (r, cache') =
                (if hashes = [] then (Inl (Error ''ER_PARSE_ERROR''), cache)
                 else
                   let transactionsInPool = filter (\<lambda>h. h \<in> set hashes) (transaction_pool db);
                       transactionsInBlock =
                         map txn_txnHash (filter (\<lambda>t. txn_txnHash t \<in> set hashes) (transactions db));
                       transactionsUnknown =
                         filter (\<lambda>txn. txn \<notin> set transactionsInPool \<and> txn \<notin> set transactionsInBlock) hashes;
                       result = statusObj transactionsInPool transactionsInBlock transactionsUnknown
                   in (Inr result, snd (setCache cache now cacheName result 5)))
          in (if falsy cached then r else Inr cached, cache'))"

text \<open>Reading the three lists back from a result.\<close>

fun jsString :: "jsval \<Rightarrow> string option" where
  "jsString (JStr s) = Some s"
| "jsString v = None"

definition stringsField :: "string \<Rightarrow> jsval \<Rightarrow> string list option" where
  "stringsField k v = (case arrField k v of None \<Rightarrow> None | Some xs \<Rightarrow> those (map jsString xs))"

text \<open>
  A result classifies \<open>hashes\<close> when the unknown hashes are apart from those in the pool
  and in a block, and the three lists together hold exactly the hashes asked for.
\<close>

definition classifies :: "string list \<Rightarrow> jsval \<Rightarrow> bool" where
  "classifies hashes v =
     (case (stringsField ''transactionsInPool'' v, stringsField ''transactionsInBlock'' v,
            stringsField ''transactionsUnknown'' v) of
        (Some p, Some b, Some u) \<Rightarrow>
          set u \<inter> (set p \<union> set b) = {} \<and> set p \<union> set b \<union> set u = set hashes
      | _ \<Rightarrow> False)"

text \<open>A transaction that is both in the pool and in a block.\<close>

definition exPooled :: database where
  "exPooled = exSpend\<lparr>transaction_pool := [''aa'', ''cc'']\<rparr>"

section \<open>The random output sampler\<close>

text \<open>
  \<open>amounts.forEach\<close>: the amounts in the order of their first occurrence, and for each the
  number of indices to draw, \<open>mixin\<close> for every occurrence.
\<close>

fun dedupeAmounts :: "int \<Rightarrow> int list \<Rightarrow> int list \<times> (int \<times> int) list \<Rightarrow> int list \<times> (int \<times> int) list" where
  "dedupeAmounts mixin [] acc = acc"
| "dedupeAmounts mixin (amount # rest) (dedupedAmounts, mixinCounts) =
     (if amount \<notin> set dedupedAmounts
      then dedupeAmounts mixin rest (dedupedAmounts @ [amount], AList.update amount mixin mixinCounts)
      else dedupeAmounts mixin rest
             (dedupedAmounts,
              AList.update amount
                ((case map_of mixinCounts amount of Some c \<Rightarrow> c | None \<Rightarrow> 0) + mixin) mixinCounts))"

text \<open>
  The random source is a parameter: \<open>draws\<close> lists the numbers that the successive calls
  \<open>Random(0, result.globalIndex)\<close> return. The generator rejects a range whose maximum is
  not above its minimum. The loop
  \<^verbatim>\<open>
  while (rnds.length !== dedupedMixin) {
    const rand = await Random(0, result.globalIndex)
    if (rnds.indexOf(rand) === -1) rnds.push(rand)
  }
  \<close>
  has no bound: when the draws are used up before it ends the result is \<open>None\<close>, the loop
  still running. Otherwise it returns the indices and the draws that are left.
\<close>

fun drawUnique :: "int \<Rightarrow> int \<Rightarrow> int list \<Rightarrow> int list \<Rightarrow> (int list \<times> int list) promise option" where
  "drawUnique globalIndex dedupedMixin rnds [] =
     (if int (length rnds) = dedupedMixin then Some (Inr (rnds, []))
      else if \<not> 0 < globalIndex
      then Some (Inl (Error ''The maximum value must be higher than the minimum value.''))
      else None)"
| "drawUnique globalIndex dedupedMixin rnds (rand # draws) =
     (if int (length rnds) = dedupedMixin then Some (Inr (rnds, rand # draws))
      else if \<not> 0 < globalIndex
      then Some (Inl (Error ''The maximum value must be higher than the minimum value.''))
      else drawUnique globalIndex dedupedMixin (if rand \<in> set rnds then rnds else rnds @ [rand]) draws)"

text \<open>
  The loop over the maximums found: the check against \<open>mixin\<close>, the draws for
  \<open>mixinCounts[result.amount]\<close> indices, and the pairs pushed on \<open>randomValues\<close>.
\<close>

fun pickRandomValues ::
  "int \<Rightarrow> (int \<times> int) list \<Rightarrow> maximum_row list \<Rightarrow> int list \<Rightarrow> (int \<times> int) list promise option" where
  "pickRandomValues mixin mixinCounts [] draws = Some (Inr [])"
| "pickRandomValues mixin mixinCounts (result # results) draws =
     (if max_globalIndex result < mixin
      then Some (Inl (Error ''Not enough mixins available to satisfy the request''))
      else
        (case drawUnique (max_globalIndex result)
                (case map_of mixinCounts (max_amount result) of Some c \<Rightarrow> c | None \<Rightarrow> - 1) [] draws of
           None \<Rightarrow> None
         | Some (Inl e) \<Rightarrow> Some (Inl e)
         | Some (Inr (rnds, draws')) \<Rightarrow>
             (case pickRandomValues mixin mixinCounts results draws' of
                None \<Rightarrow> None
              | Some (Inl e) \<Rightarrow> Some (Inl e)
              | Some (Inr randomValues) \<Rightarrow>
                  Some (Inr (map (\<lambda>rand. (max_amount result, rand)) rnds @ randomValues)))))"

text \<open>
  \<open>SELECT amount, globalIndex AS global_amount_index, key AS out_key FROM transaction_outputs
  WHERE (amount = ? AND globalIndex = ?) OR ... ORDER BY amount ASC\<close>
\<close>

definition selectRandomOutputs :: "database \<Rightarrow> (int \<times> int) list \<Rightarrow> output_row list" where
  "selectRandomOutputs db randomValues =
     orderBy out_amount
       (filter (\<lambda>p. (out_amount p, out_globalIndex p) \<in> set randomValues) (transaction_outputs db))"

text \<open>
  Forming the response. \<open>curObject\<close> starts as \<open>{ amount: -1 }\<close>, with no \<open>outs\<close> (\<open>None\<close>).
  A group is closed, sorted by global index and pushed when the amount changes or the
  group holds \<open>mixin\<close> outputs; the last group is pushed as it is.
\<close>

definition outObj :: "int \<times> string \<Rightarrow> jsval" where
  "outObj gk = JObj [(''global_amount_index'', JNum (fst gk)), (''out_key'', JStr (snd gk))]"

definition groupObj :: "int \<Rightarrow> (int \<times> string) list option \<Rightarrow> jsval" where
  "groupObj amount outs =
     (case outs of
        None \<Rightarrow> JObj [(''amount'', JNum amount)]
      | Some os \<Rightarrow> JObj [(''amount'', JNum amount), (''outs'', JArr (map outObj os))])"

fun groupOutputs ::
  "int \<Rightarrow> output_row list \<Rightarrow> int \<Rightarrow> (int \<times> string) list option \<Rightarrow> jsval list \<Rightarrow> jsval list promise" where
  "groupOutputs mixin [] curAmount curOuts response = Inr (response @ [groupObj curAmount curOuts])"
| "groupOutputs mixin (result # results) curAmount curOuts response =
     (if out_amount result = curAmount \<and> curOuts = None then Inl TypeError
      else if out_amount result \<noteq> curAmount
              \<or> int (length (case curOuts of Some os \<Rightarrow> os | None \<Rightarrow> [])) = mixin
      then groupOutputs mixin results (out_amount result)
             (Some [(out_globalIndex result, out_key result)])
             (if curAmount \<noteq> - 1
              then response @ [groupObj curAmount (map_option (sort_key fst) curOuts)]
              else response)
      else groupOutputs mixin results curAmount
             (Some ((case curOuts of Some os \<Rightarrow> os | None \<Rightarrow> []) @ [(out_globalIndex result, out_key result)]))
             response)"

text \<open>
  \<open>getRandomOutputsForAmounts (amounts, mixin)\<close>, with \<open>mixin = (mixin || 0) + 1\<close>. With no
  amount, or with nothing drawn, the criteria of a query are empty and the store rejects
  it as malformed.
\<close>

definition getRandomOutputsForAmounts ::
  "database \<Rightarrow> int list \<Rightarrow> int list \<Rightarrow> int \<Rightarrow> jsval promise option" where
  "getRandomOutputsForAmounts db draws amounts mixin0 =
     (let mixin = mixin0 + 1;
          (dedupedAmounts, mixinCounts) = dedupeAmounts mixin amounts ([], [])
      in if dedupedAmounts = [] then Some (Inl (Error ''ER_PARSE_ERROR''))
         else
           let results = filter (\<lambda>m. max_amount m \<in> set dedupedAmounts)
                           (transaction_outputs_index_maximums db)
           in if length results \<noteq> length dedupedAmounts
              then Some (Inl (Error ''No prior outputs exist for one of the supplied amounts''))
              else
                (case pickRandomValues mixin mixinCounts results draws of
                   None \<Rightarrow> None
                 | Some (Inl e) \<Rightarrow> Some (Inl e)
                 | Some (Inr randomValues) \<Rightarrow>
                     if randomValues = [] then Some (Inl (Error ''ER_PARSE_ERROR''))
                     else
                       (case groupOutputs mixin (selectRandomOutputs db randomValues) (- 1) None [] of
                          Inl e \<Rightarrow> Some (Inl e)
                        | Inr response \<Rightarrow> Some (Inr (JArr response)))))"

text \<open>Reading the global indices of a response back: those of all groups, in order.\<close>

definition groupIndices :: "jsval \<Rightarrow> int list" where
  "groupIndices g =
     (case arrField ''outs'' g of
        None \<Rightarrow> []
      | Some outs \<Rightarrow> concat (map (\<lambda>out. case numField ''global_amount_index'' out of None \<Rightarrow> [] | Some i \<Rightarrow> [i]) outs))"

definition responseIndices :: "jsval \<Rightarrow> int list" where
  "responseIndices v = (case v of JArr groups \<Rightarrow> concat (map groupIndices groups) | _ \<Rightarrow> [])"

text \<open>Amount 100 with outputs at the global indices 0 to \<open>n - 1\<close>.\<close>

definition exOutputs :: "nat \<Rightarrow> database" where
  "exOutputs n = exChain10\<lparr>
     transaction_outputs := map (\<lambda>i. exOutput ''aa'' 100 (int i) (int i) ''key'') [0..<n],
     transaction_outputs_index_maximums := [\<lparr>max_amount = 100, max_globalIndex = int n - 1\<rparr>]\<rparr>"

section \<open>The request/reply bridge (class Rabbit)\<close>

text \<open>
  The bridge is a state machine over a clock in milliseconds. Its state holds what
  \<open>requestReply\<close> creates: the consumers registered on the reply queue with
  \<open>channel.consume\<close> (each is the callback of one request, named by its request id), the
  timers armed and neither fired nor cleared, the promises handed to the callers, and the
  messages published. The request id is a fresh UUID: it is a parameter of the call.
  Messages are those the broker delivers; a delivery of \<open>null\<close> is not modelled.
\<close>

datatype settled = Pending | Resolved jsval | Rejected string

record request_message =
  msg_queue :: string
  msg_payload :: jsval
  msg_correlationId :: string
  msg_replyTo :: string
  msg_expiration :: nat

record bridge =
  clock :: nat
  replyQueue :: string
  consumers :: "string list"
  timers :: "(string \<times> nat) list"
  promises :: "string \<rightharpoonup> settled"
  published :: "request_message list"
  acked :: nat
  nacked :: nat

text \<open>\<open>resolve\<close> and \<open>reject\<close> act on a pending promise only.\<close>

definition settle :: "string \<Rightarrow> settled \<Rightarrow> bridge \<Rightarrow> bridge" where
  "settle requestId outcome b =
     (case promises b requestId of
        Some Pending \<Rightarrow> b\<lparr>promises := (promises b)(requestId \<mapsto> outcome)\<rparr>
      | _ \<Rightarrow> b)"


text \<open>
  The broker hands a message of the reply queue to one of its consumers. The callback of
  the request \<open>requestId\<close> acknowledges a message that carries its id, clears its timer
  and resolves its promise; it rejects any other message back to the broker.
\<close>

definition deliver :: "bridge \<Rightarrow> string \<Rightarrow> string \<Rightarrow> jsval \<Rightarrow> bridge" where
  "deliver b requestId correlationId response =
     (if requestId \<notin> set (consumers b) then b
      else if correlationId = requestId
      then settle requestId (Resolved response)
             (b\<lparr>acked := acked b + 1, timers := filter (\<lambda>t. fst t \<noteq> requestId) (timers b)\<rparr>)
      else b\<lparr>nacked := nacked b + 1\<rparr>)"

text \<open>The callback of \<open>setTimeout\<close>.\<close>

definition fire :: "bridge \<Rightarrow> string \<Rightarrow> bridge" where
  "fire b requestId =
     settle requestId (Rejected ''Could not complete request within the specified timeout period'') b"



section \<open>The block assembler\<close>

text \<open>
  The summary row of a block that the wallet-sync queries hand to the assembler.
  \<open>txnCount\<close> comes from a \<open>LEFT JOIN\<close> and is \<open>NULL\<close> (\<open>None\<close>) for a block without
  transaction rows.
\<close>

record block_summary =
  sum_hash :: string
  sum_height :: int
  sum_timestamp :: int
  sum_txnCount :: "int option"

text \<open>
  What the assembler reads of the rows it fetched. The rows are JavaScript values, from
  the store or from the cache; a value that is not an array of objects with these
  fields, of these types, is outside the model.
\<close>

record txn_view =
  tv_hash :: string
  tv_publicKey :: string
  tv_unlockTime :: string
  tv_paymentId :: string
  tv_inputsTotal :: int
  tv_outputsTotal :: int
  tv_fee :: int

record input_view =
  iv_txnHash :: string
  iv_keyImage :: string
  iv_amount :: int
  iv_type :: string

record output_view =
  ov_txnHash :: string
  ov_index :: int
  ov_globalIndex :: int
  ov_key :: string
  ov_amount :: int
  ov_type :: string

definition txnView :: "jsval \<Rightarrow> txn_view option" where
  "txnView v =
     (case (strField ''txnHash'' v, strField ''publicKey'' v, strField ''unlockTimeString'' v,
            strField ''paymentId'' v, numField ''totalInputsAmount'' v,
            numField ''totalOutputsAmount'' v, numField ''fee'' v) of
        (Some h, Some pk, Some ut, Some pid, Some ti, Some to, Some f) \<Rightarrow>
          Some \<lparr>tv_hash = h, tv_publicKey = pk, tv_unlockTime = ut, tv_paymentId = pid,
                tv_inputsTotal = ti, tv_outputsTotal = to, tv_fee = f\<rparr>
      | _ \<Rightarrow> None)"

definition inputView :: "jsval \<Rightarrow> input_view option" where
  "inputView v =
     (case (strField ''txnHash'' v, strField ''keyImage'' v, numField ''amount'' v, strField ''type'' v) of
        (Some h, Some k, Some a, Some t) \<Rightarrow>
          Some \<lparr>iv_txnHash = h, iv_keyImage = k, iv_amount = a, iv_type = t\<rparr>
      | _ \<Rightarrow> None)"

definition outputView :: "jsval \<Rightarrow> output_view option" where
  "outputView v =
     (case (strField ''txnHash'' v, numField ''outputIndex'' v, numField ''globalIndex'' v,
            strField ''key'' v, numField ''amount'' v, strField ''type'' v) of
        (Some h, Some i, Some g, Some k, Some a, Some t) \<Rightarrow>
          Some \<lparr>ov_txnHash = h, ov_index = i, ov_globalIndex = g, ov_key = k, ov_amount = a, ov_type = t\<rparr>
      | _ \<Rightarrow> None)"

definition decodeRows :: "(jsval \<Rightarrow> 'a option) \<Rightarrow> jsval \<Rightarrow> 'a list option" where
  "decodeRows view v = (case v of JArr rows \<Rightarrow> those (map view rows) | _ \<Rightarrow> None)"

text \<open>The transaction under assembly; \<open>meta\<close> is deleted once the transaction is checked.\<close>

record meta =
  inputsTotal :: int
  outputsTotal :: int
  fee :: int

record wallet_input =
  wi_keyImage :: string
  wi_amount :: int
  wi_type :: string

record wallet_output =
  wo_index :: int
  wo_globalIndex :: int
  wo_key :: string
  wo_amount :: int
  wo_type :: string

record wallet_txn =
  wt_hash :: string
  wt_publicKey :: string
  wt_unlockTime :: string
  wt_paymentId :: string
  wt_inputs :: "wallet_input list"
  wt_outputs :: "wallet_output list"
  wt_meta :: "meta option"

text \<open>
  \<open>transactionMap\<close> is an object keyed by transaction hash: an association list in
  insertion order, which is the order of \<open>Object.keys\<close> for keys that are hashes.
  Assigning to a key that is present replaces its value in place.
\<close>

type_synonym transaction_map = "(string \<times> wallet_txn) list"

definition newTransaction :: "txn_view \<Rightarrow> wallet_txn" where
  "newTransaction txn =
     \<lparr>wt_hash = tv_hash txn, wt_publicKey = tv_publicKey txn, wt_unlockTime = tv_unlockTime txn,
      wt_paymentId = tv_paymentId txn, wt_inputs = [], wt_outputs = [],
      wt_meta = Some \<lparr>inputsTotal = tv_inputsTotal txn, outputsTotal = tv_outputsTotal txn,
                       fee = tv_fee txn\<rparr>\<rparr>"

fun mapTransactions :: "txn_view list \<Rightarrow> transaction_map \<Rightarrow> transaction_map" where
  "mapTransactions [] transactionMap = transactionMap"
| "mapTransactions (txn # txns) transactionMap =
     mapTransactions txns (AList.update (tv_hash txn) (newTransaction txn) transactionMap)"

text \<open>
  \<open>transactionMap[input.txnHash].inputs.push(...)\<close>: a hash that is not a key of the map
  reads \<open>undefined\<close>, and pushing on it throws (\<open>None\<close>).
\<close>

fun pushInputs :: "input_view list \<Rightarrow> transaction_map \<Rightarrow> transaction_map option" where
  "pushInputs [] transactionMap = Some transactionMap"
| "pushInputs (input # inputs) transactionMap =
     (case map_of transactionMap (iv_txnHash input) of
        None \<Rightarrow> None
      | Some txn \<Rightarrow>
          pushInputs inputs
            (AList.update (iv_txnHash input)
               (txn\<lparr>wt_inputs := wt_inputs txn @
                  [\<lparr>wi_keyImage = iv_keyImage input, wi_amount = iv_amount input,
                    wi_type = iv_type input\<rparr>]\<rparr>)
               transactionMap))"

fun pushOutputs :: "output_view list \<Rightarrow> transaction_map \<Rightarrow> transaction_map option" where
  "pushOutputs [] transactionMap = Some transactionMap"
| "pushOutputs (output # outputs) transactionMap =
     (case map_of transactionMap (ov_txnHash output) of
        None \<Rightarrow> None
      | Some txn \<Rightarrow>
          pushOutputs outputs
            (AList.update (ov_txnHash output)
               (txn\<lparr>wt_outputs := wt_outputs txn @
                  [\<lparr>wo_index = ov_index output, wo_globalIndex = ov_globalIndex output,
                    wo_key = ov_key output, wo_amount = ov_amount output,
                    wo_type = ov_type output\<rparr>]\<rparr>)
               transactionMap))"

text \<open>
  \<open>Promise.all\<close> over one promise for each element of a list (the keys of the map, or
  the blocks of a page). The promises are run one after the other on the cache; when
  several fail, the failure of the first is the one kept.
\<close>

fun fetchAll ::
  "(redis option \<Rightarrow> 'k \<Rightarrow> jsval promise \<times> redis option) \<Rightarrow> redis option \<Rightarrow> 'k list
     \<Rightarrow> jsval list promise \<times> redis option" where
  "fetchAll fetch cache [] = (Inr [], cache)"
| "fetchAll fetch cache (h # hs) =
     (let (r, c1) = fetch cache h;
          (rs, c2) = fetchAll fetch c1 hs
      in (case r of
            Inl e \<Rightarrow> Inl e
          | Inr v \<Rightarrow> (case rs of Inl e \<Rightarrow> Inl e | Inr vs \<Rightarrow> Inr (v # vs)),
          c2))"

text \<open>\<open>util.format('Internal Data Consistency Error [%s]: %s', hash, message)\<close>\<close>

definition getError :: "string \<Rightarrow> string \<Rightarrow> string" where
  "getError h message = ''Internal Data Consistency Error ['' @ h @ '']: '' @ message"

definition inputsSum :: "wallet_txn \<Rightarrow> int" where
  "inputsSum txn = sum_list (map wi_amount (wt_inputs txn))"

definition outputsSum :: "wallet_txn \<Rightarrow> int" where
  "outputsSum txn = sum_list (map wo_amount (wt_outputs txn))"

text \<open>
  The loop of the consistency checks over \<open>obj.transactions\<close>. It returns the error, if
  any, and the transactions as the loop leaves them: \<open>meta\<close> is deleted from every
  transaction that passed before the loop returned. With \<open>coinbaseExempt\<close> (the current
  shape) the checks of the inputs and of the fee are skipped when \<open>meta.inputsTotal\<close> is
  0; the legacy shape applies them to every transaction of the list.
\<close>

fun checkTransactions :: "bool \<Rightarrow> wallet_txn list \<Rightarrow> failure option \<times> wallet_txn list" where
  "checkTransactions coinbaseExempt [] = (None, [])"
| "checkTransactions coinbaseExempt (txn # txns) =
     (if wt_inputs txn = [] \<and> wt_outputs txn = []
      then (Some (Error (getError (wt_hash txn) ''No inputs and no outputs'')), txn # txns)
      else
        (case wt_meta txn of
           None \<Rightarrow> (Some TypeError, txn # txns)
         | Some m \<Rightarrow>
             if (\<not> coinbaseExempt \<or> inputsTotal m \<noteq> 0) \<and> inputsSum txn \<noteq> inputsTotal m
             then (Some (Error (getError (wt_hash txn) ''Inputs total does not match meta information'')),
                   txn # txns)
             else if outputsSum txn \<noteq> outputsTotal m
             then (Some (Error (getError (wt_hash txn) ''Outputs total does not match meta information'')),
                   txn # txns)
             else if (\<not> coinbaseExempt \<or> inputsTotal m \<noteq> 0) \<and> inputsSum txn - outputsSum txn \<noteq> fee m
             then (Some (Error (getError (wt_hash txn) ''Transaction fee does not match'')), txn # txns)
             else
               (let (e, txns') = checkTransactions coinbaseExempt txns
                in (e, txn\<lparr>wt_meta := None\<rparr> # txns'))))"

subsection \<open>The current shape\<close>

definition walletInputObj :: "wallet_input \<Rightarrow> jsval" where
  "walletInputObj i =
     JObj [(''keyImage'', JStr (wi_keyImage i)), (''amount'', JNum (wi_amount i)),
           (''type'', JStr (wi_type i))]"

definition walletOutputObj :: "wallet_output \<Rightarrow> jsval" where
  "walletOutputObj p =
     JObj [(''index'', JNum (wo_index p)), (''globalIndex'', JNum (wo_globalIndex p)),
           (''key'', JStr (wo_key p)), (''amount'', JNum (wo_amount p)), (''type'', JStr (wo_type p))]"

definition metaFields :: "meta option \<Rightarrow> (string \<times> jsval) list" where
  "metaFields m =
     (case m of
        None \<Rightarrow> []
      | Some m' \<Rightarrow>
          [(''meta'', JObj [(''inputsTotal'', JNum (inputsTotal m')),
                            (''outputsTotal'', JNum (outputsTotal m')), (''fee'', JNum (fee m'))])])"

definition walletTxnObj :: "wallet_txn \<Rightarrow> jsval" where
  "walletTxnObj txn =
     JObj ([(''hash'', JStr (wt_hash txn)), (''publicKey'', JStr (wt_publicKey txn)),
            (''unlockTime'', JStr (wt_unlockTime txn)), (''paymentId'', JStr (wt_paymentId txn)),
            (''inputs'', JArr (map walletInputObj (wt_inputs txn))),
            (''outputs'', JArr (map walletOutputObj (wt_outputs txn)))] @ metaFields (wt_meta txn))"

definition walletBlockObj :: "block_summary \<Rightarrow> wallet_txn list \<Rightarrow> jsval" where
  "walletBlockObj block txns =
     JObj [(''blockHash'', JStr (sum_hash block)), (''height'', JNum (sum_height block)),
           (''timestamp'', JNum (sum_timestamp block)),
           (''transactions'', JArr (map walletTxnObj txns))]"

text \<open>
  The step of the consistency checks. In this shape the summary row has no \<open>hash\<close>
  column (the hash is selected as \<open>blockHash\<close>), so the first message is formatted with
  \<open>undefined\<close>.
\<close>

definition checkWalletBlock :: "block_summary \<Rightarrow> wallet_txn list \<Rightarrow> failure option \<times> wallet_txn list" where
  "checkWalletBlock block txns =
     (if sum_txnCount block \<noteq> Some (int (length txns))
      then (Some (Error (getError ''undefined'' ''Unexpected number of transactions in structure'')), txns)
      else checkTransactions True txns)"

text \<open>
  The chain of \<open>buildWalletDataBlock\<close> after the look into the cache. A handler that calls
  \<open>reject\<close> and returns does not stop the chain: after the step of the checks,
  \<open>setCache(cacheName, obj, 60 * 60 * 24)\<close> runs whether the checks rejected or not, on
  \<open>obj\<close> as the checks left it. Only an exception (or a rejected fetch) skips it.
\<close>

definition assembleWalletDataBlock ::
  "database \<Rightarrow> redis option \<Rightarrow> nat \<Rightarrow> block_summary \<Rightarrow> jsval promise \<times> redis option" where
  "assembleWalletDataBlock db cache now block =
     (let (txnsR, c1) = getTransactionsByBlock db cache now (sum_hash block)
      in case txnsR of
        Inl e \<Rightarrow> (Inl e, c1)
      | Inr txnsJs \<Rightarrow>
      (case decodeRows txnView txnsJs of
        None \<Rightarrow> (Inl OutsideModel, c1)
      | Some txns \<Rightarrow>
      (let transactionMap = mapTransactions txns [];
           (insR, c2) = fetchAll (\<lambda>c h. getTransactionInputs db c now h False) c1 (map fst transactionMap)
       in case insR of
         Inl e \<Rightarrow> (Inl e, c2)
       | Inr insJs \<Rightarrow>
       (case those (map (decodeRows inputView) insJs) of
         None \<Rightarrow> (Inl OutsideModel, c2)
       | Some ins \<Rightarrow>
       (case pushInputs (concat ins) transactionMap of
         None \<Rightarrow> (Inl TypeError, c2)
       | Some withInputs \<Rightarrow>
       (let (outsR, c3) = fetchAll (\<lambda>c h. getTransactionOutputs db c now (Some h) False) c2
                            (map fst withInputs)
        in case outsR of
          Inl e \<Rightarrow> (Inl e, c3)
        | Inr outsJs \<Rightarrow>
        (case those (map (decodeRows outputView) outsJs) of
          None \<Rightarrow> (Inl OutsideModel, c3)
        | Some outs \<Rightarrow>
        (case pushOutputs (concat outs) withInputs of
          None \<Rightarrow> (Inl TypeError, c3)
        | Some withOutputs \<Rightarrow>
        (let (err, transactions) = checkWalletBlock block (map snd withOutputs);
             (response, c4) = setCache c3 now (sum_hash block) (walletBlockObj block transactions)
                                (60 * 60 * 24)
         in (case err of Some e \<Rightarrow> Inl e | None \<Rightarrow> Inr response, c4))))))))))"

definition buildWalletDataBlock ::
  "database \<Rightarrow> redis option \<Rightarrow> nat \<Rightarrow> block_summary \<Rightarrow> jsval promise \<times> redis option" where
  "buildWalletDataBlock db cache now block =
     (case checkCache cache now (sum_hash block) of
        None \<Rightarrow> (Inl NeverSettles, cache)
      | Some cached \<Rightarrow>
          let (r, cache') = assembleWalletDataBlock db cache now block
          in (if falsy cached then r else Inr cached, cache'))"
subsection \<open>The legacy shape\<close>

text \<open>
  In the legacy shape a transaction whose \<open>totalInputsAmount\<close> is 0 is the coinbase
  transaction: it is kept apart in \<open>obj.coinbaseTX\<close>, which starts as \<open>{}\<close> (\<open>None\<close>), and
  only the other transactions enter the map.
\<close>

record coinbase_tx =
  cb_hash :: string
  cb_txPublicKey :: string
  cb_unlockTime :: string
  cb_outputs :: "wallet_output list"

fun splitTransactions ::
  "txn_view list \<Rightarrow> coinbase_tx option \<times> transaction_map \<Rightarrow> coinbase_tx option \<times> transaction_map" where
  "splitTransactions [] acc = acc"
| "splitTransactions (txn # txns) (coinbaseTX, transactionMap) =
     (if tv_inputsTotal txn = 0
      then splitTransactions txns
             (Some \<lparr>cb_hash = tv_hash txn, cb_txPublicKey = tv_publicKey txn,
                     cb_unlockTime = tv_unlockTime txn, cb_outputs = []\<rparr>,
              transactionMap)
      else splitTransactions txns
             (coinbaseTX, AList.update (tv_hash txn) (newTransaction txn) transactionMap))"

text \<open>The fields that the legacy code reads of an input row and of an output row.\<close>

definition legacyInputView :: "jsval \<Rightarrow> input_view option" where
  "legacyInputView v =
     (case (strField ''txnHash'' v, numField ''amount'' v, strField ''keyImage'' v) of
        (Some h, Some a, Some k) \<Rightarrow>
          Some \<lparr>iv_txnHash = h, iv_keyImage = k, iv_amount = a, iv_type = []\<rparr>
      | _ \<Rightarrow> None)"

definition legacyOutputView :: "jsval \<Rightarrow> output_view option" where
  "legacyOutputView v =
     (case (strField ''txnHash'' v, numField ''amount'' v, strField ''key'' v, numField ''globalIndex'' v) of
        (Some h, Some a, Some k, Some g) \<Rightarrow>
          Some \<lparr>ov_txnHash = h, ov_index = 0, ov_globalIndex = g, ov_key = k, ov_amount = a, ov_type = []\<rparr>
      | _ \<Rightarrow> None)"

definition coinbaseOutputView :: "jsval \<Rightarrow> wallet_output option" where
  "coinbaseOutputView v =
     (case (numField ''amount'' v, strField ''key'' v, numField ''globalIndex'' v) of
        (Some a, Some k, Some g) \<Rightarrow>
          Some \<lparr>wo_index = 0, wo_globalIndex = g, wo_key = k, wo_amount = a, wo_type = []\<rparr>
      | _ \<Rightarrow> None)"

definition legacyInputObj :: "wallet_input \<Rightarrow> jsval" where
  "legacyInputObj i = JObj [(''amount'', JNum (wi_amount i)), (''k_image'', JStr (wi_keyImage i))]"

definition legacyOutputObj :: "wallet_output \<Rightarrow> jsval" where
  "legacyOutputObj p =
     JObj [(''amount'', JNum (wo_amount p)), (''key'', JStr (wo_key p)),
           (''globalIndex'', JNum (wo_globalIndex p))]"

definition legacyTxnObj :: "wallet_txn \<Rightarrow> jsval" where
  "legacyTxnObj txn =
     JObj ([(''hash'', JStr (wt_hash txn)),
            (''inputs'', JArr (map legacyInputObj (wt_inputs txn))),
            (''outputs'', JArr (map legacyOutputObj (wt_outputs txn))),
            (''paymentID'', JStr (wt_paymentId txn)), (''txPublicKey'', JStr (wt_publicKey txn)),
            (''unlockTime'', JStr (wt_unlockTime txn))] @ metaFields (wt_meta txn))"

definition coinbaseObj :: "coinbase_tx option \<Rightarrow> jsval" where
  "coinbaseObj coinbaseTX =
     (case coinbaseTX of
        None \<Rightarrow> JObj []
      | Some cb \<Rightarrow>
          JObj [(''hash'', JStr (cb_hash cb)), (''txPublicKey'', JStr (cb_txPublicKey cb)),
                (''unlockTime'', JStr (cb_unlockTime cb)),
                (''outputs'', JArr (map legacyOutputObj (cb_outputs cb)))])"

definition legacyBlockObj :: "block_summary \<Rightarrow> coinbase_tx option \<Rightarrow> wallet_txn list \<Rightarrow> jsval" where
  "legacyBlockObj block coinbaseTX txns =
     JObj [(''blockHash'', JStr (sum_hash block)), (''blockHeight'', JNum (sum_height block)),
           (''blockTimestamp'', JNum (sum_timestamp block)),
           (''coinbaseTX'', coinbaseObj coinbaseTX),
           (''transactions'', JArr (map legacyTxnObj txns))]"

text \<open>
  The step of the consistency checks of the legacy shape. Without a coinbase
  transaction \<open>obj.coinbaseTX.outputs\<close> is \<open>undefined\<close> and reading its length throws.
\<close>

definition checkLegacyBlock ::
  "block_summary \<Rightarrow> coinbase_tx option \<Rightarrow> wallet_txn list \<Rightarrow> failure option \<times> wallet_txn list" where
  "checkLegacyBlock block coinbaseTX txns =
     (case coinbaseTX of
        None \<Rightarrow> (Some TypeError, txns)
      | Some cb \<Rightarrow>
          if cb_outputs cb = []
          then (Some (Error (getError (sum_hash block) ''Coinbase Transaction Has No Outputs'')), txns)
          else if sum_txnCount block \<noteq> Some (int (length txns) + 1)
          then (Some (Error (getError (sum_hash block) ''Unexpected number of transactions in structure'')),
                txns)
          else checkTransactions False txns)"

text \<open>
  The chain of \<open>buildLegacyWalletDataBlock\<close> after the look into the cache. The outputs of
  the coinbase transaction are fetched with the default trimming, by a hash that is
  \<open>undefined\<close> when the block has no coinbase transaction; pushing an output on the
  \<open>outputs\<close> of a coinbase transaction that is not there throws. An exception skips
  \<open>setCache\<close>; a check that rejects does not. \<open>delete response.coinbaseTX\<close> acts on the
  response only, after it was cached.
\<close>

definition assembleLegacyWalletDataBlock ::
  "database \<Rightarrow> redis option \<Rightarrow> nat \<Rightarrow> block_summary \<Rightarrow> bool \<Rightarrow> jsval promise \<times> redis option" where
  "assembleLegacyWalletDataBlock db cache now block skipCoinbaseTransactions =
     (let (txnsR, c1) = getTransactionsByBlock db cache now (sum_hash block)
      in case txnsR of
        Inl e \<Rightarrow> (Inl e, c1)
      | Inr txnsJs \<Rightarrow>
      (case decodeRows txnView txnsJs of
        None \<Rightarrow> (Inl OutsideModel, c1)
      | Some txns \<Rightarrow>
      (let (coinbaseTX, transactionMap) = splitTransactions txns (None, []);
           (cbR, c2) = getTransactionOutputs db c1 now (map_option cb_hash coinbaseTX) True
       in case cbR of
         Inl e \<Rightarrow> (Inl e, c2)
       | Inr cbJs \<Rightarrow>
       (case decodeRows coinbaseOutputView cbJs of
         None \<Rightarrow> (Inl OutsideModel, c2)
       | Some cbOuts \<Rightarrow>
       if coinbaseTX = None \<and> cbOuts \<noteq> [] then (Inl TypeError, c2)
       else
       (let coinbaseTX' = map_option (\<lambda>cb. cb\<lparr>cb_outputs := cb_outputs cb @ cbOuts\<rparr>) coinbaseTX;
            (insR, c3) = fetchAll (\<lambda>c h. getTransactionInputs db c now h False) c2
                           (map fst transactionMap)
        in case insR of
          Inl e \<Rightarrow> (Inl e, c3)
        | Inr insJs \<Rightarrow>
        (case those (map (decodeRows legacyInputView) insJs) of
          None \<Rightarrow> (Inl OutsideModel, c3)
        | Some ins \<Rightarrow>
        (case pushInputs (concat ins) transactionMap of
          None \<Rightarrow> (Inl TypeError, c3)
        | Some withInputs \<Rightarrow>
        (let (outsR, c4) = fetchAll (\<lambda>c h. getTransactionOutputs db c now (Some h) False) c3
                             (map fst withInputs)
         in case outsR of
           Inl e \<Rightarrow> (Inl e, c4)
         | Inr outsJs \<Rightarrow>
         (case those (map (decodeRows legacyOutputView) outsJs) of
           None \<Rightarrow> (Inl OutsideModel, c4)
         | Some outs \<Rightarrow>
         (case pushOutputs (concat outs) withInputs of
           None \<Rightarrow> (Inl TypeError, c4)
         | Some withOutputs \<Rightarrow>
         (let (err, transactions) = checkLegacyBlock block coinbaseTX' (map snd withOutputs)
          in if err = Some TypeError then (Inl TypeError, c4)
             else
               (let (response, c5) = setCache c4 now (''legacy'' @ sum_hash block)
                                       (legacyBlockObj block coinbaseTX' transactions) (60 * 60 * 24)
                in (case err of
                      Some e \<Rightarrow> Inl e
                    | None \<Rightarrow>
                        Inr (if skipCoinbaseTransactions then deleteField ''coinbaseTX'' response
                             else response),
                    c5)))))))))))))"

definition buildLegacyWalletDataBlock ::
  "database \<Rightarrow> redis option \<Rightarrow> nat \<Rightarrow> block_summary \<Rightarrow> bool \<Rightarrow> jsval promise \<times> redis option" where
  "buildLegacyWalletDataBlock db cache now block skipCoinbaseTransactions =
     (case checkCache cache now (''legacy'' @ sum_hash block) of
        None \<Rightarrow> (Inl NeverSettles, cache)
      | Some cached \<Rightarrow>
          let (r, cache') = assembleLegacyWalletDataBlock db cache now block skipCoinbaseTransactions
          in (if falsy cached then r else Inr cached, cache'))"

definition exSum :: block_summary where
  "exSum = \<lparr>sum_hash = ''b1'', sum_height = 1, sum_timestamp = 10, sum_txnCount = Some 1\<rparr>"

text \<open>A block whose only transaction is a coinbase transaction recorded with outputs of
  100, of which the store holds one output of 50.\<close>

definition exCoinbase :: database where
  "exCoinbase = exSpend\<lparr>transactions := [exTxn ''cb'' ''b1'' 0 100 0], transaction_inputs := [],
     transaction_outputs := [exOutput ''cb'' 50 0 0 ''o1'']\<rparr>"

text \<open>The block of \<open>exSpend\<close> with an input of 99 where 100 is recorded.\<close>

definition exBroken :: database where
  "exBroken = exSpend\<lparr>transaction_inputs := [exInput ''aa'' 99 ''k1'']\<rparr>"


text \<open>A block with a coinbase transaction of 100 and the transaction of \<open>exSpend\<close>.\<close>

definition exMined :: database where
  "exMined = exSpend\<lparr>transactions := [exTxn ''cb'' ''b1'' 0 100 0, exTxn ''aa'' ''b1'' 100 90 10],
     transaction_outputs := [exOutput ''aa'' 90 0 0 ''o1'', exOutput ''cb'' 100 1 0 ''o2'']\<rparr>"

definition exSum2 :: block_summary where
  "exSum2 = exSum\<lparr>sum_txnCount := Some 2\<rparr>"

definition exWalletTxn :: "int \<Rightarrow> string \<Rightarrow> meta option \<Rightarrow> wallet_txn" where
  "exWalletTxn a t m =
     \<lparr>wt_hash = ''aa'', wt_publicKey = ''pk'', wt_unlockTime = ''0'', wt_paymentId = [],
      wt_inputs = [\<lparr>wi_keyImage = ''k1'', wi_amount = a, wi_type = t\<rparr>],
      wt_outputs = [\<lparr>wo_index = 0, wo_globalIndex = 0, wo_key = ''o1'', wo_amount = 90, wo_type = t\<rparr>],
      wt_meta = m\<rparr>"

definition exCoinbaseTx :: "int \<Rightarrow> int \<Rightarrow> string \<Rightarrow> coinbase_tx" where
  "exCoinbaseTx a g k =
     \<lparr>cb_hash = ''cb'', cb_txPublicKey = ''pk'', cb_unlockTime = ''0'',
      cb_outputs = [\<lparr>wo_index = 0, wo_globalIndex = g, wo_key = k, wo_amount = a, wo_type = []\<rparr>]\<rparr>"

section \<open>Wallet synchronisation\<close>

text \<open>
  The summary rows of the wallet-sync queries: \<open>hash\<close>, \<open>height\<close>, \<open>timestamp\<close> and the
  \<open>txnCount\<close> of a \<open>LEFT JOIN\<close> on the transaction counts by block, which is \<open>NULL\<close> for a
  block without transactions.
\<close>

definition blockSummary :: "database \<Rightarrow> block_row \<Rightarrow> block_summary" where
  "blockSummary db b =
     \<lparr>sum_hash = blk_hash b, sum_height = blk_height b, sum_timestamp = blk_timestamp b,
      sum_txnCount = (let n = selectTransactionCount db (blk_hash b) in if n = 0 then None else Some n)\<rparr>"

text \<open>\<open>... WHERE height >= ? AND height < ? ORDER BY height\<close>\<close>

definition selectBlocksInWindow :: "database \<Rightarrow> int \<Rightarrow> int \<Rightarrow> block_summary list" where
  "selectBlocksInWindow db lo hi =
     map (blockSummary db)
       (orderBy blk_height (filter (\<lambda>b. lo \<le> blk_height b \<and> blk_height b < hi) (blocks db)))"

text \<open>\<open>... WHERE height >= ? ORDER BY height ASC LIMIT ?\<close>\<close>

definition selectBlocksFrom :: "database \<Rightarrow> int \<Rightarrow> int \<Rightarrow> block_summary list" where
  "selectBlocksFrom db lo limit =
     take (nat limit)
       (map (blockSummary db) (orderBy blk_height (filter (\<lambda>b. lo \<le> blk_height b) (blocks db))))"

text \<open>\<open>... WHERE height >= ? AND height <= ? [AND transactions.txnCount > 1]
  ORDER BY height ASC LIMIT ?\<close>\<close>

definition selectBlocksBetween :: "database \<Rightarrow> int \<Rightarrow> int \<Rightarrow> bool \<Rightarrow> int \<Rightarrow> block_summary list" where
  "selectBlocksBetween db lo hi skipCoinbaseTransactions limit =
     take (nat limit)
       (filter (\<lambda>s. \<not> skipCoinbaseTransactions
                    \<or> (case sum_txnCount s of None \<Rightarrow> False | Some n \<Rightarrow> 1 < n))
          (map (blockSummary db)
             (orderBy blk_height (filter (\<lambda>b. lo \<le> blk_height b \<and> blk_height b \<le> hi) (blocks db)))))"

text \<open>
  The assembled blocks are sorted with the comparator
  \<open>(a, b) => (a.blockHeight > b.blockHeight) ? 1 : -1\<close>. Blocks of the current shape have
  no \<open>blockHeight\<close>, the comparator is then not consistent and the order that \<open>sort\<close>
  leaves is up to the engine: \<open>arraySort\<close>, the sort of the engine with this comparator,
  is a parameter of the operations.

  A scan height may be absent (\<open>None\<close>), which \<open>scanHeight || 0\<close> makes 0. A start
  height is \<open>None\<close> when it is \<open>false\<close>, which is what the route passes for a height that is
  not a number; in the comparison of the query \<open>false\<close> is 0.
\<close>

definition getWalletSyncDataByHeight ::
  "(jsval list \<Rightarrow> jsval list) \<Rightarrow> database \<Rightarrow> redis option \<Rightarrow> nat \<Rightarrow> int option \<Rightarrow> int option
     \<Rightarrow> jsval promise \<times> redis option" where
  "getWalletSyncDataByHeight arraySort db cache now scanHeight0 blockCount0 =
     (let blockCount = checkBlockCount blockCount0;
          scanHeight = (case scanHeight0 of None \<Rightarrow> 0 | Some h \<Rightarrow> h);
          (r, cache') = fetchAll (\<lambda>c block. buildWalletDataBlock db c now block) cache
                          (selectBlocksInWindow db scanHeight (scanHeight + blockCount))
      in (case r of Inl e \<Rightarrow> Inl e | Inr built \<Rightarrow> Inr (JArr (arraySort built)), cache'))"

text \<open>
  \<open>getWalletSyncData\<close> throws on an empty list of hashes; the height it resumes from is
  what \<open>findCurrentSyncHeight\<close> resolved.
\<close>

definition getWalletSyncData ::
  "(jsval list \<Rightarrow> jsval list) \<Rightarrow> database \<Rightarrow> redis option \<Rightarrow> nat \<Rightarrow> string list \<Rightarrow> int option
     \<Rightarrow> jsval promise \<times> redis option" where
  "getWalletSyncData arraySort db cache now knownBlockHashes blockCount0 =
     (let blockCount = checkBlockCount blockCount0
      in if knownBlockHashes = []
         then (Inl (Error ''You must supply at least one known block hash''), cache)
         else
           (let (r, c1) = findCurrentSyncHeight db cache now knownBlockHashes None None
            in case r of
                 Inl e \<Rightarrow> (Inl e, c1)
               | Inr (JNum syncHeight) \<Rightarrow>
                   getWalletSyncDataByHeight arraySort db c1 now (Some syncHeight) (Some blockCount)
               | Inr v \<Rightarrow> (Inl OutsideModel, c1)))"

definition legacyGetWalletSyncDataLite ::
  "(jsval list \<Rightarrow> jsval list) \<Rightarrow> database \<Rightarrow> redis option \<Rightarrow> nat \<Rightarrow> int option \<Rightarrow> int option
     \<Rightarrow> jsval promise \<times> redis option" where
  "legacyGetWalletSyncDataLite arraySort db cache now startHeight0 blockCount0 =
     (let blockCount = checkBlockCount blockCount0;
          (r, cache') = fetchAll (\<lambda>c block. buildLegacyWalletDataBlock db c now block False) cache
                          (selectBlocksFrom db (case startHeight0 of None \<Rightarrow> 0 | Some h \<Rightarrow> h) blockCount)
      in (case r of Inl e \<Rightarrow> Inl e | Inr built \<Rightarrow> Inr (JArr (arraySort built)), cache'))"

text \<open>
  \<open>legacyGetWalletSyncData\<close> selects from the resume height (named \<open>topHeight\<close> in the
  source) to the height of the top block, and returns the blocks with \<open>from\<close> and
  \<open>topBlock\<close>.
\<close>

definition legacyGetWalletSyncData ::
  "(jsval list \<Rightarrow> jsval list) \<Rightarrow> database \<Rightarrow> redis option \<Rightarrow> nat \<Rightarrow> int option \<Rightarrow> int option
     \<Rightarrow> string list \<Rightarrow> int option \<Rightarrow> bool \<Rightarrow> jsval promise \<times> redis option" where
  "legacyGetWalletSyncData arraySort db cache now startHeight startTimestamp blockHashCheckpoints
       blockCount0 skipCoinbaseTransactions =
     (let blockCount = checkBlockCount blockCount0;
          (top, c1) = getLastBlockHeader db cache now
      in case top of
           Inl e \<Rightarrow> (Inl e, c1)
         | Inr topBlock \<Rightarrow>
             (let (r, c2) = findCurrentSyncHeight db c1 now blockHashCheckpoints startHeight startTimestamp
              in case r of
                   Inl e \<Rightarrow> (Inl e, c2)
                 | Inr (JNum topHeight) \<Rightarrow>
                     (case numField ''height'' topBlock of
                        None \<Rightarrow> (Inl OutsideModel, c2)
                      | Some topBlockHeight \<Rightarrow>
                          (let (bs, c3) =
                                 fetchAll (\<lambda>c block. buildLegacyWalletDataBlock db c now block
                                                        skipCoinbaseTransactions) c2
                                   (selectBlocksBetween db topHeight topBlockHeight
                                      skipCoinbaseTransactions blockCount)
                           in (case bs of
                                 Inl e \<Rightarrow> Inl e
                               | Inr built \<Rightarrow>
                                   Inr (JObj [(''blocks'', JArr (arraySort built)),
                                              (''from'', JNum topHeight), (''topBlock'', topBlock)]),
                               c3)))
                 | Inr v \<Rightarrow> (Inl OutsideModel, c2)))"

text \<open>
  A store in which 101 blocks have the height 7. Block \<open>i\<close> has the hash \<open>f\<close> followed by
  \<open>i\<close> zeros and one transaction, its coinbase transaction, with one output of 100.
\<close>

definition forkHash :: "nat \<Rightarrow> string" where
  "forkHash i = CHR ''f'' # replicate i (CHR ''0'')"

definition exForked :: database where
  "exForked = exChain10\<lparr>
     blocks := map (\<lambda>i. exBlock (forkHash i) 7 70) [0..<101],
     transactions := map (\<lambda>i. exTxn (CHR ''c'' # forkHash i) (forkHash i) 0 100 0) [0..<101],
     transaction_outputs := map (\<lambda>i. exOutput (CHR ''c'' # forkHash i) 100 (int i) 0 ''o'') [0..<101]\<rparr>"

definition exForkedSummary :: "nat \<Rightarrow> block_summary" where
  "exForkedSummary i =
     \<lparr>sum_hash = forkHash i, sum_height = 7, sum_timestamp = 70, sum_txnCount = Some 1\<rparr>"

definition exForkedBlock :: "nat \<Rightarrow> jsval" where
  "exForkedBlock i =
     walletBlockObj (exForkedSummary i)
       [\<lparr>wt_hash = CHR ''c'' # forkHash i, wt_publicKey = ''pk'', wt_unlockTime = ''0'',
         wt_paymentId = [], wt_inputs = [],
         wt_outputs = [\<lparr>wo_index = 0, wo_globalIndex = int i, wo_key = ''o'', wo_amount = 100,
                         wo_type = ''02''\<rparr>],
         wt_meta = None\<rparr>]"

definition exForkedPage :: "jsval list" where
  "exForkedPage = map exForkedBlock [0..<101]"

section \<open>Cache store properties\<close>

text \<open>
  C9. A lookup that finds no entry (or an expired one), an empty array or an empty
  mapping is a miss, with or without a cache backend; and after an empty array was stored
  under a key, reading that key is a miss at every later time.
\<close>

theorem C9_empty_lookup_is_miss:
  "(store r (sha256 r k) = None \<longrightarrow> isMiss (checkCache (Some r) now k))
   \<and> (RedisCache_get r now k = Some JNull \<longrightarrow> isMiss (checkCache (Some r) now k))
   \<and> (RedisCache_get r now k = Some (JArr []) \<longrightarrow> isMiss (checkCache (Some r) now k))
   \<and> (RedisCache_get r now k = Some (JObj []) \<longrightarrow> isMiss (checkCache (Some r) now k))
   \<and> isMiss (checkCache None now k)
   \<and> (\<exists>r'. RedisCache_set r now k (JArr []) ttl = Inr r'
           \<and> RedisCache_get r' now' k \<in> {Some (JArr []), Some JNull}
           \<and> isMiss (checkCache (Some r') now' k))
   \<and> isMiss (checkCache (snd (setCache (Some r) now k (JArr []) ttl)) now' k)"
  by (simp add: isMiss_def checkCache_def setCache_def RedisCache_set_def RedisCache_get_def)

theorem C9_empty_lookup_is_miss_witness:
  "RedisCache_get \<lparr>sha256 = (\<lambda>k. k), jsonParse = (\<lambda>s. None), defaultTTL = 30,
       store = [''k'' \<mapsto> (Json (JArr []), 60)]\<rparr> 5 ''k'' = Some (JArr [])
   \<and> isMiss (checkCache (Some \<lparr>sha256 = (\<lambda>k. k), jsonParse = (\<lambda>s. None), defaultTTL = 30,
       store = [''k'' \<mapsto> (Json (JArr []), 60)]\<rparr>) 5 ''k'')
   \<and> RedisCache_get \<lparr>sha256 = (\<lambda>k. k), jsonParse = (\<lambda>s. None), defaultTTL = 30,
       store = [''j'' \<mapsto> (Json (JObj []), 60)]\<rparr> 5 ''j'' = Some (JObj [])
   \<and> isMiss (checkCache (Some \<lparr>sha256 = (\<lambda>k. k), jsonParse = (\<lambda>s. None), defaultTTL = 30,
       store = [''j'' \<mapsto> (Json (JObj []), 60)]\<rparr>) 5 ''j'')
   \<and> isMiss (checkCache (Some \<lparr>sha256 = (\<lambda>k. k), jsonParse = (\<lambda>s. None), defaultTTL = 30,
       store = Map.empty\<rparr>) 5 ''k'')"
  using C9_empty_lookup_is_miss
    [of "\<lparr>sha256 = (\<lambda>k. k), jsonParse = (\<lambda>s. None), defaultTTL = 30,
          store = [''k'' \<mapsto> (Json (JArr []), 60)]\<rparr>" "''k''" 5]
    C9_empty_lookup_is_miss
    [of "\<lparr>sha256 = (\<lambda>k. k), jsonParse = (\<lambda>s. None), defaultTTL = 30,
          store = [''j'' \<mapsto> (Json (JObj []), 60)]\<rparr>" "''j''" 5]
    C9_empty_lookup_is_miss
    [of "\<lparr>sha256 = (\<lambda>k. k), jsonParse = (\<lambda>s. None), defaultTTL = 30,
          store = Map.empty\<rparr>" "''k''" 5]
  by (simp add: RedisCache_get_def)

section \<open>Block header depth\<close>

lemmas header_eval =
  getBlockHeaderByHash_def getBlockHeaderByHeight_def getBlockHeaderBy_def getLastBlockHeader_def
  checkCache_def RedisCache_get_def setCache_def RedisCache_set_def selectLastBlock_def
  orderByDesc_def headerObj_def blockFields_def selectTransactionCount_def numField_def
  exRedis_def exBlock_def exChain10_def exChain12_def isMiss_def showInt_def Let_def

lemma headerObj_fields:
  "numField ''height'' (headerObj b d n) = Some (blk_height b)"
  "numField ''depth'' (headerObj b d n) = Some d"
  by (simp_all add: headerObj_def blockFields_def numField_def)

lemma getBlockHeaderBy_miss:
  assumes "isMiss (checkCache cache now cacheName)"
      and "fst (getBlockHeaderBy cacheName wh db cache now) = Inr v"
  shows "\<exists>top topHeight b. fst (getLastBlockHeader db cache now) = Inr top
           \<and> numField ''height'' top = Some topHeight
           \<and> b \<in> set (blocks db) \<and> wh b
           \<and> v = headerObj b (topHeight - blk_height b) (selectTransactionCount db (blk_hash b))"
proof -
  obtain top c1 where g: "getLastBlockHeader db cache now = (top, c1)"
    by (cases "getLastBlockHeader db cache now")
  from assms g obtain block where top: "top = Inr block"
    by (cases top) (auto simp: getBlockHeaderBy_def isMiss_def)
  from assms g top obtain b bs where f: "take 1 (filter wh (blocks db)) = b # bs"
    by (cases "take 1 (filter wh (blocks db))") (auto simp: getBlockHeaderBy_def isMiss_def)
  from assms g top f obtain topHeight where h: "numField ''height'' block = Some topHeight"
    by (cases "numField ''height'' block") (auto simp: getBlockHeaderBy_def isMiss_def)
  from f have "b \<in> set (take 1 (filter wh (blocks db)))" by simp
  then have "b \<in> set (filter wh (blocks db))" by (rule in_set_takeD)
  then have mem: "b \<in> set (blocks db)" "wh b" by simp_all
  from assms g top f h
  have "v = headerObj b (topHeight - blk_height b) (selectTransactionCount db (blk_hash b))"
    by (auto simp: getBlockHeaderBy_def isMiss_def Let_def setCache_def split: option.splits sum.splits)
  with g top h mem show ?thesis by auto
qed

lemma getBlockHeaderBy_hit:
  assumes "checkCache cache now cacheName = Some cached" and "\<not> isMiss (Some cached)"
  shows "fst (getBlockHeaderBy cacheName wh db cache now) = Inr cached"
proof -
  from assms have "\<not> falsy cached"
    by (auto simp: checkCache_def isMiss_def split: option.splits if_splits)
  with assms(1) show ?thesis
    by (simp add: getBlockHeaderBy_def Let_def split: prod.splits)
qed

text \<open>
  C2 (as the code has it). On a cache miss, the depth of the header returned
  by \<open>getBlockHeaderByHash\<close> or \<open>getBlockHeaderByHeight\<close> is the height of the header that
  \<open>getLastBlockHeader\<close> resolves during that call minus the height of the returned header.
  On a cache hit the cached header is returned as it was stored, depth included.
\<close>

theorem C2_depth_on_miss_and_hit:
  "(isMiss (checkCache cache now (''getBlockHeaderByHash'' @ blockHash))
      \<and> fst (getBlockHeaderByHash db cache now blockHash) = Inr v
    \<longrightarrow> (\<exists>top topHeight h. fst (getLastBlockHeader db cache now) = Inr top
           \<and> numField ''height'' top = Some topHeight
           \<and> numField ''height'' v = Some h
           \<and> numField ''depth'' v = Some (topHeight - h)))
   \<and> (isMiss (checkCache cache now (''getBlockHeaderByHeight'' @ showInt height))
      \<and> fst (getBlockHeaderByHeight db cache now height) = Inr w
    \<longrightarrow> (\<exists>top topHeight. fst (getLastBlockHeader db cache now) = Inr top
           \<and> numField ''height'' top = Some topHeight
           \<and> numField ''height'' w = Some height
           \<and> numField ''depth'' w = Some (topHeight - height)))
   \<and> (checkCache cache now (''getBlockHeaderByHash'' @ blockHash) = Some cached
      \<and> \<not> isMiss (Some cached)
    \<longrightarrow> fst (getBlockHeaderByHash db cache now blockHash) = Inr cached)
   \<and> (checkCache cache now (''getBlockHeaderByHeight'' @ showInt height) = Some cached'
      \<and> \<not> isMiss (Some cached')
    \<longrightarrow> fst (getBlockHeaderByHeight db cache now height) = Inr cached')"
proof (intro conjI impI)
  assume a: "isMiss (checkCache cache now (''getBlockHeaderByHash'' @ blockHash))
      \<and> fst (getBlockHeaderByHash db cache now blockHash) = Inr v"
  then obtain top topHeight b where
    "fst (getLastBlockHeader db cache now) = Inr top" "numField ''height'' top = Some topHeight"
    "v = headerObj b (topHeight - blk_height b) (selectTransactionCount db (blk_hash b))"
    using getBlockHeaderBy_miss [of cache now "''getBlockHeaderByHash'' @ blockHash" _ db v]
    unfolding getBlockHeaderByHash_def by blast
  then show "\<exists>top topHeight h. fst (getLastBlockHeader db cache now) = Inr top
           \<and> numField ''height'' top = Some topHeight
           \<and> numField ''height'' v = Some h
           \<and> numField ''depth'' v = Some (topHeight - h)"
    by (auto simp: headerObj_fields)
next
  assume a: "isMiss (checkCache cache now (''getBlockHeaderByHeight'' @ showInt height))
      \<and> fst (getBlockHeaderByHeight db cache now height) = Inr w"
  then obtain top topHeight b where
    "fst (getLastBlockHeader db cache now) = Inr top" "numField ''height'' top = Some topHeight"
    "blk_height b = height"
    "w = headerObj b (topHeight - blk_height b) (selectTransactionCount db (blk_hash b))"
    using getBlockHeaderBy_miss [of cache now "''getBlockHeaderByHeight'' @ showInt height" _ db w]
    unfolding getBlockHeaderByHeight_def by blast
  then show "\<exists>top topHeight. fst (getLastBlockHeader db cache now) = Inr top
           \<and> numField ''height'' top = Some topHeight
           \<and> numField ''height'' w = Some height
           \<and> numField ''depth'' w = Some (topHeight - height)"
    by (auto simp: headerObj_fields)
next
  assume "checkCache cache now (''getBlockHeaderByHash'' @ blockHash) = Some cached
      \<and> \<not> isMiss (Some cached)"
  then show "fst (getBlockHeaderByHash db cache now blockHash) = Inr cached"
    unfolding getBlockHeaderByHash_def by (simp add: getBlockHeaderBy_hit)
next
  assume "checkCache cache now (''getBlockHeaderByHeight'' @ showInt height) = Some cached'
      \<and> \<not> isMiss (Some cached')"
  then show "fst (getBlockHeaderByHeight db cache now height) = Inr cached'"
    unfolding getBlockHeaderByHeight_def by (simp add: getBlockHeaderBy_hit)
qed

text \<open>
  The witness: on an empty cache the block at height 5 of a chain of height 10 is
  returned with depth 5, by hash and by height; and from the cache this leaves, the
  stored header is what a second call returns.
\<close>

theorem C2_depth_on_miss_and_hit_witness:
  "isMiss (checkCache (Some exRedis) 0 (''getBlockHeaderByHash'' @ ''b5''))
   \<and> fst (getBlockHeaderByHash exChain10 (Some exRedis) 0 ''b5'') = Inr (headerObj (exBlock ''b5'' 5 50) 5 0)
   \<and> isMiss (checkCache (Some exRedis) 0 (''getBlockHeaderByHeight'' @ showInt 5))
   \<and> fst (getBlockHeaderByHeight exChain10 (Some exRedis) 0 5) = Inr (headerObj (exBlock ''b5'' 5 50) 5 0)
   \<and> numField ''depth'' (headerObj (exBlock ''b5'' 5 50) 5 0) = Some (10 - 5)
   \<and> checkCache (snd (getBlockHeaderByHash exChain10 (Some exRedis) 0 ''b5'')) 1
        (''getBlockHeaderByHash'' @ ''b5'') = Some (headerObj (exBlock ''b5'' 5 50) 5 0)
   \<and> fst (getBlockHeaderByHash exChain10 (snd (getBlockHeaderByHash exChain10 (Some exRedis) 0 ''b5'')) 1 ''b5'')
        = Inr (headerObj (exBlock ''b5'' 5 50) 5 0)
   \<and> checkCache (snd (getBlockHeaderByHeight exChain10 (Some exRedis) 0 5)) 1
        (''getBlockHeaderByHeight'' @ showInt 5) = Some (headerObj (exBlock ''b5'' 5 50) 5 0)
   \<and> fst (getBlockHeaderByHeight exChain10 (snd (getBlockHeaderByHeight exChain10 (Some exRedis) 0 5)) 1 5)
        = Inr (headerObj (exBlock ''b5'' 5 50) 5 0)"
proof -
  have m1: "isMiss (checkCache (Some exRedis) 0 (''getBlockHeaderByHash'' @ ''b5''))"
    by (simp add: header_eval)
  have r1: "fst (getBlockHeaderByHash exChain10 (Some exRedis) 0 ''b5'') = Inr (headerObj (exBlock ''b5'' 5 50) 5 0)"
    by (simp add: header_eval)
  have m2: "isMiss (checkCache (Some exRedis) 0 (''getBlockHeaderByHeight'' @ showInt 5))"
    by (simp add: header_eval showBase.simps)
  have r2: "fst (getBlockHeaderByHeight exChain10 (Some exRedis) 0 5) = Inr (headerObj (exBlock ''b5'' 5 50) 5 0)"
    by (simp add: header_eval showBase.simps)
  have h1: "checkCache (snd (getBlockHeaderByHash exChain10 (Some exRedis) 0 ''b5'')) 1
        (''getBlockHeaderByHash'' @ ''b5'') = Some (headerObj (exBlock ''b5'' 5 50) 5 0)"
    by (simp add: header_eval)
  have h2: "checkCache (snd (getBlockHeaderByHeight exChain10 (Some exRedis) 0 5)) 1
        (''getBlockHeaderByHeight'' @ showInt 5) = Some (headerObj (exBlock ''b5'' 5 50) 5 0)"
    by (simp add: header_eval showBase.simps)
  have n: "\<not> isMiss (Some (headerObj (exBlock ''b5'' 5 50) 5 0))"
    by (simp add: isMiss_def headerObj_def)
  note a = C2_depth_on_miss_and_hit [of "Some exRedis" 0 "''b5''" exChain10
      "headerObj (exBlock ''b5'' 5 50) 5 0" 5 "headerObj (exBlock ''b5'' 5 50) 5 0"]
  note b = C2_depth_on_miss_and_hit [of "snd (getBlockHeaderByHash exChain10 (Some exRedis) 0 ''b5'')" 1 "''b5''"
      exChain10 _ 5 _ "headerObj (exBlock ''b5'' 5 50) 5 0"]
  note c = C2_depth_on_miss_and_hit [of "snd (getBlockHeaderByHeight exChain10 (Some exRedis) 0 5)" 1 "''b5''"
      exChain10 _ 5 _ _ "headerObj (exBlock ''b5'' 5 50) 5 0"]
  from b h1 n have s1: "fst (getBlockHeaderByHash exChain10 (snd (getBlockHeaderByHash exChain10 (Some exRedis) 0 ''b5'')) 1 ''b5'')
        = Inr (headerObj (exBlock ''b5'' 5 50) 5 0)" by blast
  from c h2 n have s2: "fst (getBlockHeaderByHeight exChain10 (snd (getBlockHeaderByHeight exChain10 (Some exRedis) 0 5)) 1 5)
        = Inr (headerObj (exBlock ''b5'' 5 50) 5 0)" by blast
  from a m1 r1 m2 r2 have "numField ''depth'' (headerObj (exBlock ''b5'' 5 50) 5 0) = Some (10 - 5)"
    by (simp add: headerObj_fields)
  with m1 r1 m2 r2 h1 h2 s1 s2 show ?thesis by blast
qed

text \<open>
  C2 as stated fails on a hit. The header of the block at height 5 is read at time 0,
  when the chain has height 10, and cached with depth 5. Two blocks later, at time 7, the
  entry of the top header has expired, so \<open>getLastBlockHeader\<close> resolves height 12 from the
  store, while \<open>getBlockHeaderByHash\<close> still returns the cached header with depth 5.
\<close>

theorem C2_stale_depth_counterexample:
  "numField ''height'' (projr (fst (getLastBlockHeader exChain12
       (snd (getBlockHeaderByHash exChain10 (Some exRedis) 0 ''b5'')) 7))) = Some 12
   \<and> fst (getBlockHeaderByHash exChain12
       (snd (getBlockHeaderByHash exChain10 (Some exRedis) 0 ''b5'')) 7 ''b5'')
      = Inr (headerObj (exBlock ''b5'' 5 50) 5 0)
   \<and> numField ''height'' (headerObj (exBlock ''b5'' 5 50) 5 0) = Some 5
   \<and> numField ''depth'' (headerObj (exBlock ''b5'' 5 50) 5 0) = Some 5
   \<and> (5::int) \<noteq> 12 - 5"
  by (simp add: header_eval)

section \<open>Inputs and outputs of a transaction, with and without the cache\<close>

lemmas rows_eval =
  getTransactionInputs_def getTransactionOutputs_def checkTrim_def selectInputs_def selectOutputs_def
  orderBy_def orderByText_def inputObj_def outputObj_def typeHex_def digitChar_def
  checkCache_def RedisCache_get_def setCache_def RedisCache_set_def
  exRedis_def exInput_def exOutput_def exTxn_def exSpend_def exBlock_def Let_def

text \<open>
  C8 at a failing input. The store does not change. With no cache, and on the first call
  with an empty cache, \<open>getTransactionInputs(''aa'')\<close> returns its row without \<open>txnHash\<close>;
  the second call, a second later, is a hit and returns the row as it was cached, with
  \<open>txnHash\<close>. \<open>getTransactionOutputs\<close> does the same.
\<close>

theorem C8_trim_differs_on_hit:
  "fst (getTransactionInputs exSpend None 0 ''aa'' True)
     = Inr (JArr [JObj [(''type'', JStr ''02''), (''amount'', JNum 100), (''keyImage'', JStr ''k1'')]])
   \<and> fst (getTransactionInputs exSpend (Some exRedis) 0 ''aa'' True)
     = Inr (JArr [JObj [(''type'', JStr ''02''), (''amount'', JNum 100), (''keyImage'', JStr ''k1'')]])
   \<and> fst (getTransactionInputs exSpend (snd (getTransactionInputs exSpend (Some exRedis) 0 ''aa'' True)) 1 ''aa'' True)
     = Inr (JArr [JObj [(''txnHash'', JStr ''aa''), (''type'', JStr ''02''), (''amount'', JNum 100),
                        (''keyImage'', JStr ''k1'')]])
   \<and> fst (getTransactionOutputs exSpend None 0 (Some ''aa'') True)
     = Inr (JArr [JObj [(''type'', JStr ''02''), (''amount'', JNum 90), (''globalIndex'', JNum 0),
                        (''outputIndex'', JNum 0), (''key'', JStr ''o1'')]])
   \<and> fst (getTransactionOutputs exSpend (Some exRedis) 0 (Some ''aa'') True)
     = Inr (JArr [JObj [(''type'', JStr ''02''), (''amount'', JNum 90), (''globalIndex'', JNum 0),
                        (''outputIndex'', JNum 0), (''key'', JStr ''o1'')]])
   \<and> fst (getTransactionOutputs exSpend (snd (getTransactionOutputs exSpend (Some exRedis) 0 (Some ''aa'') True)) 1
            (Some ''aa'') True)
     = Inr (JArr [JObj [(''txnHash'', JStr ''aa''), (''type'', JStr ''02''), (''amount'', JNum 90),
                        (''globalIndex'', JNum 0), (''outputIndex'', JNum 0), (''key'', JStr ''o1'')]])"
  by (simp add: rows_eval showBase.simps)

text \<open>
  What does hold: on a miss the rows returned are those returned with no cache at all.
\<close>

lemma getTransactionInputs_miss_as_uncached:
  "isMiss (checkCache cache now (''getTransactionInputs'' @ h))
   \<Longrightarrow> fst (getTransactionInputs db cache now h trim) = fst (getTransactionInputs db None now h trim)"
  by (auto simp: getTransactionInputs_def isMiss_def setCache_def checkCache_def Let_def
           split: list.splits option.splits sum.splits)

lemma getTransactionOutputs_miss_as_uncached:
  "isMiss (checkCache cache now (''getTransactionOutputs'' @ (case h of None \<Rightarrow> ''undefined'' | Some h' \<Rightarrow> h')))
   \<Longrightarrow> fst (getTransactionOutputs db cache now h trim) = fst (getTransactionOutputs db None now h trim)"
  by (auto simp: getTransactionOutputs_def isMiss_def setCache_def checkCache_def Let_def
           split: list.splits option.splits sum.splits)

section \<open>The resume height\<close>

lemma orderByDesc_Cons:
  assumes "rows \<noteq> []"
  shows "\<exists>r rs. orderByDesc f rows = r # rs \<and> r \<in> set rows \<and> f r = Max (f ` set rows)"
proof -
  let ?g = "\<lambda>r. - f r"
  from assms have "length (sort_key ?g rows) \<noteq> 0" by simp
  then obtain r rs where s: "sort_key ?g rows = r # rs"
    by (cases "sort_key ?g rows") auto
  have "set (r # rs) = set rows" unfolding s [symmetric] by simp
  then have mem: "r \<in> set rows" and sub: "set rs \<subseteq> set rows" and all: "set rows = insert r (set rs)"
    by auto
  have "sorted (map ?g (sort_key ?g rows))" by (rule sorted_sort_key)
  then have "\<forall>y\<in>set rs. ?g r \<le> ?g y" unfolding s by auto
  then have le: "\<forall>y\<in>set rows. f y \<le> f r" using all by auto
  have "Max (f ` set rows) = f r"
    by (rule Max_eqI) (use mem le in auto)
  with s mem show ?thesis by (auto simp: orderByDesc_def)
qed

lemma top_height_rows:
  "map blk_height (take 1 (orderByDesc blk_height (filter P bs))) =
     (if filter P bs = [] then [] else [Max (blk_height ` {b \<in> set bs. P b})])"
proof (cases "filter P bs = []")
  case True
  then show ?thesis by (simp add: orderByDesc_def)
next
  case False
  from orderByDesc_Cons [OF False, of blk_height] obtain r rs where
    "orderByDesc blk_height (filter P bs) = r # rs" "blk_height r = Max (blk_height ` set (filter P bs))"
    by blast
  with False show ?thesis by simp
qed

lemma Max_succ_image:
  assumes "finite S" "S \<noteq> {}"
  shows "Max ((\<lambda>b. f b + (1::int)) ` S) = Max (f ` S) + 1"
proof -
  have "(\<lambda>b. f b + 1) ` S = (\<lambda>x. x + 1) ` (f ` S)" by (auto simp: image_image)
  moreover have "Max ((\<lambda>x. x + 1) ` (f ` S)) = Max (f ` S) + 1"
    by (rule mono_Max_commute [symmetric]) (use assms in \<open>auto simp: mono_def\<close>)
  ultimately show ?thesis by simp
qed

lemma numberOrAbsent_miss:
  "numberOrAbsent cache now key \<Longrightarrow> checkCache cache now key = Some (JBool False)"
  by (auto simp: numberOrAbsent_def checkCache_def split: option.splits jsval.splits)

text \<open>
  A hash without a single quote and without a backslash is read back as it was pasted.
\<close>

lemma readInList_inside:
  "sqlQuote \<notin> set h \<Longrightarrow> CHR 0x5C \<notin> set h
   \<Longrightarrow> readInList (Inside literal) literals (h @ rest) = readInList (Inside (literal @ h)) literals rest"
  by (induction h arbitrary: literal) auto

lemma readInList_quoted:
  assumes "sqlQuote \<notin> set h" "CHR 0x5C \<notin> set h"
  shows "readInList Start literals ([sqlQuote] @ h @ [sqlQuote] @ rest) = readInList (After h) literals rest"
proof -
  have "sqlQuote \<noteq> CHR 0x5C" by (simp add: sqlQuote_def)
  with readInList_inside [OF assms, of "[]" literals "sqlQuote # rest"] show ?thesis by simp
qed

lemma readInList_criteria:
  assumes "\<forall>h\<in>set (k # ks). sqlQuote \<notin> set h \<and> CHR 0x5C \<notin> set h"
  shows "readInList Start literals (criteria (k # ks)) = Literals (literals @ k # ks)"
  using assms
proof (induction ks arbitrary: k literals)
  case Nil
  then show ?case
    using readInList_quoted [of k literals "[]"] by (simp add: criteria_def)
next
  case (Cons k' ks)
  have "criteria (k # k' # ks) = [sqlQuote] @ k @ [sqlQuote] @ (CHR '','' # criteria (k' # ks))"
    by (simp add: criteria_def)
  moreover have "readInList Start literals ([sqlQuote] @ k @ [sqlQuote] @ (CHR '','' # criteria (k' # ks)))
      = readInList (After k) literals (CHR '','' # criteria (k' # ks))"
    by (rule readInList_quoted) (use Cons.prems in auto)
  moreover have "readInList (After k) literals (CHR '','' # criteria (k' # ks))
      = readInList Start (literals @ [k]) (criteria (k' # ks))"
    by (simp add: sqlQuote_def)
  moreover have "readInList Start (literals @ [k]) (criteria (k' # ks)) = Literals ((literals @ [k]) @ k' # ks)"
    by (rule Cons.IH) (use Cons.prems in auto)
  ultimately show ?case by simp
qed

lemma jsonPlain_backslash: "jsonPlain h \<Longrightarrow> CHR 0x5C \<notin> set h"
  by (auto simp: jsonPlain_def list_all_iff)

lemma queryTopKnownHeight_plain:
  assumes "known \<noteq> []" "list_all jsonPlain known" "\<forall>h\<in>set known. sqlQuote \<notin> set h"
  shows "queryTopKnownHeight db known = Inr (selectTopKnownHeight db known)"
proof -
  from assms(1) obtain k ks where k: "known = k # ks" by (cases known) auto
  have "\<forall>h\<in>set (k # ks). sqlQuote \<notin> set h \<and> CHR 0x5C \<notin> set h"
    using assms(2,3) unfolding k by (auto simp: list_all_iff dest: jsonPlain_backslash)
  from readInList_criteria [OF this, of "[]"] show ?thesis
    by (simp add: queryTopKnownHeight_def k)
qed

lemma findCurrentSyncHeight_value:
  assumes "numberOrAbsent cache now (syncHeightCacheName known startHeight0 startTimestamp0)"
      and "\<forall>b\<in>set (blocks db). 0 \<le> blk_height b \<and> blk_height b < 2 ^ 53"
      and "list_all jsonPlain known" "\<forall>h\<in>set known. sqlQuote \<notin> set h"
      and "safeInteger (case startHeight0 of None \<Rightarrow> 0 | Some h \<Rightarrow> h)"
      and "safeInteger (case startTimestamp0 of None \<Rightarrow> 0 | Some t \<Rightarrow> t)"
  shows "fst (findCurrentSyncHeight db cache now known startHeight0 startTimestamp0) =
     Inr (JNum (Max ({0, (case startHeight0 of None \<Rightarrow> 0 | Some h \<Rightarrow> h)}
        \<union> (\<lambda>b. blk_height b + 1) ` {b \<in> set (blocks db). blk_hash b \<in> set known}
        \<union> blk_height ` {b \<in> set (blocks db).
               0 < (case startTimestamp0 of None \<Rightarrow> 0 | Some t \<Rightarrow> t)
               \<and> blk_timestamp b \<le> (case startTimestamp0 of None \<Rightarrow> 0 | Some t \<Rightarrow> t)})))"
proof -
  define sh where "sh = (case startHeight0 of None \<Rightarrow> 0 | Some h \<Rightarrow> h)"
  define st where "st = (case startTimestamp0 of None \<Rightarrow> 0 | Some t \<Rightarrow> t)"
  define K where "K = {b \<in> set (blocks db). blk_hash b \<in> set known}"
  define T where "T = {b \<in> set (blocks db). 0 < st \<and> blk_timestamp b \<le> st}"
  define s1 where "s1 = (if K = {} then 0 else Max (blk_height ` K) + 1)"
  define s2 where "s2 = (if T = {} then s1 else max (Max (blk_height ` T)) s1)"
  have finK: "finite K" and finT: "finite T" by (simp_all add: K_def T_def)
  have miss: "checkCache cache now (''findCurrentSyncHeight'' @ stringifyHashes known @ showInt sh @ showInt st)
                = Some (JBool False)"
    using numberOrAbsent_miss [OF assms(1)] by (simp add: syncHeightCacheName_def sh_def st_def)
  have fK: "(filter (\<lambda>b. blk_hash b \<in> set known) (blocks db) = []) = (K = {})"
    by (auto simp: K_def filter_empty_conv)
  have sel1: "selectTopKnownHeight db known = (if K = {} then [] else [Max (blk_height ` K)])"
    unfolding selectTopKnownHeight_def top_height_rows by (simp add: fK) (simp add: K_def)
  define rows1 where "rows1 = (if known = [] then None else Some (selectTopKnownHeight db known))"
  have q: "(if length known > 0 then map_sum id Some (queryTopKnownHeight db known) else Inr None) = Inr rows1"
    using queryTopKnownHeight_plain [OF _ assms(3,4), of db] by (simp add: rows1_def)
  have r1: "(case rows1 of Some [h] \<Rightarrow> h + 1 | _ \<Rightarrow> 0) = s1"
  proof (cases "known = []")
    case True
    then have "K = {}" by (simp add: K_def)
    with True show ?thesis by (simp add: s1_def rows1_def)
  next
    case False
    then show ?thesis
      by (simp add: sel1 s1_def rows1_def)
  qed
  have inK: "Max (blk_height ` K) \<in> blk_height ` set (blocks db)" if "K \<noteq> {}"
  proof -
    have "Max (blk_height ` K) \<in> blk_height ` K" by (rule Max_in) (use finK that in auto)
    moreover have "blk_height ` K \<subseteq> blk_height ` set (blocks db)" by (auto simp: K_def)
    ultimately show ?thesis by blast
  qed
  have inT: "Max (blk_height ` T) \<in> blk_height ` set (blocks db)" if "T \<noteq> {}"
  proof -
    have "Max (blk_height ` T) \<in> blk_height ` T" by (rule Max_in) (use finT that in auto)
    moreover have "blk_height ` T \<subseteq> blk_height ` set (blocks db)" by (auto simp: T_def)
    ultimately show ?thesis by blast
  qed
  have safeH: "h \<in> blk_height ` set (blocks db) \<Longrightarrow> safeInteger h" for h
    using assms(2) by (auto simp: safeInteger_def)
  have fT: "0 < st \<Longrightarrow> (filter (\<lambda>b. blk_timestamp b \<le> st) (blocks db) = []) = (T = {})"
    by (auto simp: T_def filter_empty_conv)
  have sel2: "0 < st \<Longrightarrow> selectTopHeightBefore db st = (if T = {} then [] else [Max (blk_height ` T)])"
    unfolding selectTopHeightBefore_def top_height_rows by (simp add: fT) (simp add: T_def)
  define rows2 where "rows2 = (if st > 0 then Some (selectTopHeightBefore db st) else None)"
  have r2: "(case rows2 of Some [h] \<Rightarrow> if h > s1 then h else s1 | _ \<Rightarrow> s1) = s2"
  proof (cases "0 < st")
    case False
    then have "T = {}" by (simp add: T_def)
    with False show ?thesis by (simp add: s2_def rows2_def)
  next
    case True
    then show ?thesis
      by (auto simp: sel2 s2_def max_def rows2_def)
  qed
  have safe: "list_all safeInteger
                ((case rows1 of Some hs \<Rightarrow> hs | None \<Rightarrow> [])
                 @ (case rows2 of Some hs \<Rightarrow> hs | None \<Rightarrow> []))"
    using inK inT safeH by (auto simp: rows1_def rows2_def sel1 sel2)
  have guard: "(list_all jsonPlain known \<and> safeInteger sh \<and> safeInteger st) = True"
    using assms(3,5,6) by (simp add: sh_def st_def)
  have sc: "fst (setCache cache now key v ttl) = v" for key v ttl
    by (simp add: setCache_def split: option.splits sum.splits)
  have mx: "(if sh > s2 then sh else s2) = max sh s2" by (simp add: max_def)
  have res: "fst (findCurrentSyncHeight db cache now known startHeight0 startTimestamp0)
               = Inr (JNum (max sh s2))"
    unfolding findCurrentSyncHeight_def Let_def sh_def [symmetric] st_def [symmetric]
      rows2_def [symmetric] guard miss q
    by (simp only: if_False option.case sum.case r1 r2 safe mx not_True_eq_False case_prod_beta
          fst_conv sc falsy.simps if_True) simp
  have s1_ge: "0 \<le> s1"
  proof (cases "K = {}")
    case True then show ?thesis by (simp add: s1_def)
  next
    case False
    then obtain b where "b \<in> K" by auto
    then have "blk_height b \<le> Max (blk_height ` K)" using finK by simp
    moreover have "0 \<le> blk_height b" using assms(2) \<open>b \<in> K\<close> by (simp add: K_def)
    ultimately show ?thesis using False by (simp add: s1_def)
  qed
  have m1: "Max (insert 0 ((\<lambda>b. blk_height b + 1) ` K)) = s1"
  proof (cases "K = {}")
    case True then show ?thesis by (simp add: s1_def)
  next
    case False
    then have "Max ((\<lambda>b. blk_height b + 1) ` K) = s1"
      using Max_succ_image [OF finK False, of blk_height] by (simp add: s1_def)
    moreover have "Max (insert 0 ((\<lambda>b. blk_height b + 1) ` K)) = max 0 (Max ((\<lambda>b. blk_height b + 1) ` K))"
      using finK False by (simp add: Max_insert)
    ultimately show ?thesis using s1_ge by simp
  qed
  have m2: "Max (insert 0 ((\<lambda>b. blk_height b + 1) ` K) \<union> blk_height ` T) = s2"
  proof (cases "T = {}")
    case True then show ?thesis using m1 by (simp add: s2_def)
  next
    case False
    have "Max (insert 0 ((\<lambda>b. blk_height b + 1) ` K) \<union> blk_height ` T)
            = max (Max (insert 0 ((\<lambda>b. blk_height b + 1) ` K))) (Max (blk_height ` T))"
      by (rule Max_Un) (use finK finT False in auto)
    with m1 False show ?thesis by (simp add: s2_def max.commute)
  qed
  have "{0, sh} \<union> (\<lambda>b. blk_height b + 1) ` K \<union> blk_height ` T
          = insert sh (insert 0 ((\<lambda>b. blk_height b + 1) ` K) \<union> blk_height ` T)"
    by auto
  moreover have "Max (insert sh (insert 0 ((\<lambda>b. blk_height b + 1) ` K) \<union> blk_height ` T))
          = max sh (Max (insert 0 ((\<lambda>b. blk_height b + 1) ` K) \<union> blk_height ` T))"
    by (rule Max_insert) (use finK finT in auto)
  ultimately have "Max ({0, sh} \<union> (\<lambda>b. blk_height b + 1) ` K \<union> blk_height ` T) = max sh s2"
    using m2 by simp
  with res show ?thesis by (simp add: sh_def st_def K_def T_def)
qed

text \<open>
  For hashes that hold no single quote and no character that \<open>JSON.stringify\<close> escapes,
  and numbers that are safe integers, the resolver does what C3 says. When the cache
  holds nothing or a number under the name of the call (a number is all the resolver
  stores there, and a number read back is never a hit), the resume height is the maximum
  of 0, the start height (0 when absent), one plus every stored height of a block whose
  hash is known, and, when the start timestamp is positive, every stored height of a
  block whose timestamp is at most the start timestamp.
\<close>

lemma findCurrentSyncHeight_resume_height:
  assumes "numberOrAbsent cache now (syncHeightCacheName known startHeight0 startTimestamp0)"
      and "\<forall>b\<in>set (blocks db). 0 \<le> blk_height b \<and> blk_height b < 2 ^ 53"
      and "list_all jsonPlain known" "\<forall>h\<in>set known. sqlQuote \<notin> set h"
      and "safeInteger (case startHeight0 of None \<Rightarrow> 0 | Some h \<Rightarrow> h)"
      and "safeInteger (case startTimestamp0 of None \<Rightarrow> 0 | Some t \<Rightarrow> t)"
  shows "\<exists>height. fst (findCurrentSyncHeight db cache now known startHeight0 startTimestamp0) = Inr (JNum height)
           \<and> height = Max ({0, (case startHeight0 of None \<Rightarrow> 0 | Some h \<Rightarrow> h)}
                \<union> (\<lambda>b. blk_height b + 1) ` {b \<in> set (blocks db). blk_hash b \<in> set known}
                \<union> blk_height ` {b \<in> set (blocks db).
                       0 < (case startTimestamp0 of None \<Rightarrow> 0 | Some t \<Rightarrow> t)
                       \<and> blk_timestamp b \<le> (case startTimestamp0 of None \<Rightarrow> 0 | Some t \<Rightarrow> t)})"
  using findCurrentSyncHeight_value [OF assms] by simp

lemmas sync_eval =
  findCurrentSyncHeight_def syncHeightCacheName_def numberOrAbsent_def stringifyHashes_def
  queryTopKnownHeight_def criteria_def sqlQuote_def jsonPlain_def safeInteger_def
  selectTopKnownHeight_def selectTopHeightBefore_def orderByDesc_def showInt_def digitChar_def
  checkCache_def RedisCache_get_def setCache_def RedisCache_set_def
  exRedis_def exBlock_def exChain10_def exChain100_def exSplitHash_def exOpenHash_def Let_def

text \<open>
  On a chain with blocks 99, 100 and 101 (timestamps 990, 1000 and 1010): knowing block
  99, starting at 50 and at timestamp 1005 resumes at 100; knowing nothing resumes at 0;
  knowing block 100 resumes at 101.
\<close>

lemma findCurrentSyncHeight_resume_height_examples:
  "fst (findCurrentSyncHeight exChain100 (Some exRedis) 0 [''b99''] (Some 50) (Some 1005)) = Inr (JNum 100)
   \<and> fst (findCurrentSyncHeight exChain100 (Some exRedis) 0 [] (Some 0) (Some 0)) = Inr (JNum 0)
   \<and> fst (findCurrentSyncHeight exChain100 (Some exRedis) 0 [''b100''] (Some 0) (Some 0)) = Inr (JNum 101)"
  by (simp add: sync_eval showBase.simps)

text \<open>
  C3 at two failing inputs, on the chain with blocks 99, 100 and 101 and without a
  cache. The string \<open>zz','b100\<close> is the hash of no block, so by C3 a call that knows only
  this string resumes at 0. Pasted between single quotes it gives the text that the two
  hashes \<open>zz\<close> and \<open>b100\<close> give, the query finds block 100, and the call resumes at 101.
  The string \<open>b100'\<close> is the hash of no block either; pasted it leaves a literal open, the
  store fails the query, and the call is rejected where C3 has it resume at 0.
\<close>

theorem C3_hashes_are_pasted_unescaped:
  "exSplitHash \<notin> set (map blk_hash (blocks exChain100))
   \<and> criteria [exSplitHash] = criteria [''zz'', ''b100'']
   \<and> fst (findCurrentSyncHeight exChain100 None 0 [exSplitHash] None None) = Inr (JNum 101)
   \<and> exOpenHash \<notin> set (map blk_hash (blocks exChain100))
   \<and> readInList Start [] (criteria [exOpenHash]) = Unterminated
   \<and> fst (findCurrentSyncHeight exChain100 None 0 [exOpenHash] None None) = Inl (Error ''ER_PARSE_ERROR'')"
  by (simp add: sync_eval showBase.simps)
section \<open>Classification of transaction hashes\<close>

lemma those_jsString: "those (map (jsString \<circ> JStr) xs) = Some xs"
  by (induction xs) simp_all

lemma stringsField_statusObj:
  "stringsField ''transactionsInPool'' (statusObj p b u) = Some p"
  "stringsField ''transactionsInBlock'' (statusObj p b u) = Some b"
  "stringsField ''transactionsUnknown'' (statusObj p b u) = Some u"
  by (simp_all add: stringsField_def arrField_def statusObj_def those_jsString)

lemma classifies_query:
  "classifies hashes
     (statusObj (filter (\<lambda>h. h \<in> set hashes) pool)
        (map txn_txnHash (filter (\<lambda>t. txn_txnHash t \<in> set hashes) txns))
        (filter (\<lambda>txn. txn \<notin> set (filter (\<lambda>h. h \<in> set hashes) pool)
                   \<and> txn \<notin> set (map txn_txnHash (filter (\<lambda>t. txn_txnHash t \<in> set hashes) txns)))
           hashes))"
  by (auto simp: classifies_def stringsField_statusObj)

lemma getTransactionsStatus_miss:
  assumes h: "hashes \<noteq> []"
      and c: "checkCache cache now (''getTransactionsStatus'' @ stringifyHashes hashes) = Some cached"
      and f: "falsy cached"
  shows "fst (getTransactionsStatus db cache now hashes) =
     Inr (statusObj (filter (\<lambda>h. h \<in> set hashes) (transaction_pool db))
        (map txn_txnHash (filter (\<lambda>t. txn_txnHash t \<in> set hashes) (transactions db)))
        (filter (\<lambda>txn. txn \<notin> set (filter (\<lambda>h. h \<in> set hashes) (transaction_pool db))
                   \<and> txn \<notin> set (map txn_txnHash (filter (\<lambda>t. txn_txnHash t \<in> set hashes) (transactions db))))
           hashes))"
  unfolding getTransactionsStatus_def Let_def c using h f
  by (simp only: option.case if_True if_False split_conv fst_conv simp_thms)

text \<open>
  C7 (as the code has it). For a list with at least one hash, when the cache misses or
  holds under the name of the call a result that classifies the same list, the call
  resolves with a result in which the unknown hashes are apart from the two other lists
  and the three lists together are the hashes asked for. On a miss the first two lists
  are the requested hashes found in the pool and in the transactions table: they share
  every requested hash that is in both.
\<close>

theorem C7_status_classification:
  "(hashes \<noteq> [] \<and> checkCache cache now (''getTransactionsStatus'' @ stringifyHashes hashes) = Some cached
      \<and> (isMiss (Some cached) \<or> classifies hashes cached)
    \<longrightarrow> (\<exists>v. fst (getTransactionsStatus db cache now hashes) = Inr v \<and> classifies hashes v))
   \<and> (hashes \<noteq> [] \<and> isMiss (checkCache cache now (''getTransactionsStatus'' @ stringifyHashes hashes))
    \<longrightarrow> fst (getTransactionsStatus db cache now hashes) =
          Inr (statusObj (filter (\<lambda>h. h \<in> set hashes) (transaction_pool db))
                 (map txn_txnHash (filter (\<lambda>t. txn_txnHash t \<in> set hashes) (transactions db)))
                 (filter (\<lambda>h. h \<notin> set (transaction_pool db) \<and> h \<notin> txn_txnHash ` set (transactions db)) hashes)))"
proof (intro conjI impI)
  assume a: "hashes \<noteq> [] \<and> checkCache cache now (''getTransactionsStatus'' @ stringifyHashes hashes) = Some cached
      \<and> (isMiss (Some cached) \<or> classifies hashes cached)"
  show "\<exists>v. fst (getTransactionsStatus db cache now hashes) = Inr v \<and> classifies hashes v"
  proof (cases "falsy cached")
    case True
    with a have "fst (getTransactionsStatus db cache now hashes) =
       Inr (statusObj (filter (\<lambda>h. h \<in> set hashes) (transaction_pool db))
        (map txn_txnHash (filter (\<lambda>t. txn_txnHash t \<in> set hashes) (transactions db)))
        (filter (\<lambda>txn. txn \<notin> set (filter (\<lambda>h. h \<in> set hashes) (transaction_pool db))
                   \<and> txn \<notin> set (map txn_txnHash (filter (\<lambda>t. txn_txnHash t \<in> set hashes) (transactions db))))
           hashes))"
      by (intro getTransactionsStatus_miss) auto
    then show ?thesis
      using classifies_query [of hashes "transaction_pool db" "transactions db"] by blast
  next
    case False
    with a have "classifies hashes cached" by (auto simp: isMiss_def)
    with a False show ?thesis
      unfolding getTransactionsStatus_def Let_def by simp
  qed
next
  assume a: "hashes \<noteq> [] \<and> isMiss (checkCache cache now (''getTransactionsStatus'' @ stringifyHashes hashes))"
  have "filter (\<lambda>txn. txn \<notin> set (filter (\<lambda>h. h \<in> set hashes) (transaction_pool db))
                   \<and> txn \<notin> set (map txn_txnHash (filter (\<lambda>t. txn_txnHash t \<in> set hashes) (transactions db))))
           hashes
        = filter (\<lambda>h. h \<notin> set (transaction_pool db) \<and> h \<notin> txn_txnHash ` set (transactions db)) hashes"
    by (rule filter_cong) auto
  moreover from a have "fst (getTransactionsStatus db cache now hashes) =
       Inr (statusObj (filter (\<lambda>h. h \<in> set hashes) (transaction_pool db))
        (map txn_txnHash (filter (\<lambda>t. txn_txnHash t \<in> set hashes) (transactions db)))
        (filter (\<lambda>txn. txn \<notin> set (filter (\<lambda>h. h \<in> set hashes) (transaction_pool db))
                   \<and> txn \<notin> set (map txn_txnHash (filter (\<lambda>t. txn_txnHash t \<in> set hashes) (transactions db))))
           hashes))"
    by (intro getTransactionsStatus_miss [of _ _ _ "JBool False"]) (auto simp: isMiss_def)
  ultimately show "fst (getTransactionsStatus db cache now hashes) =
          Inr (statusObj (filter (\<lambda>h. h \<in> set hashes) (transaction_pool db))
                 (map txn_txnHash (filter (\<lambda>t. txn_txnHash t \<in> set hashes) (transactions db)))
                 (filter (\<lambda>h. h \<notin> set (transaction_pool db) \<and> h \<notin> txn_txnHash ` set (transactions db)) hashes))"
    by simp
qed

lemmas status_eval =
  getTransactionsStatus_def statusObj_def classifies_def stringsField_def arrField_def
  stringifyHashes_def checkCache_def RedisCache_get_def setCache_def RedisCache_set_def isMiss_def
  exRedis_def exPooled_def exSpend_def exTxn_def Let_def

text \<open>
  The witness: of three hashes, \<open>cc\<close> is in the pool only, \<open>dd\<close> nowhere and \<open>aa\<close> in both
  tables; the first call misses, the second call hits what the first one stored.
\<close>

theorem C7_status_classification_witness:
  "checkCache (Some exRedis) 0 (''getTransactionsStatus'' @ stringifyHashes [''cc'', ''dd'', ''aa''])
     = Some (JBool False)
   \<and> fst (getTransactionsStatus exPooled (Some exRedis) 0 [''cc'', ''dd'', ''aa''])
     = Inr (statusObj [''aa'', ''cc''] [''aa''] [''dd''])
   \<and> classifies [''cc'', ''dd'', ''aa''] (statusObj [''aa'', ''cc''] [''aa''] [''dd''])
   \<and> checkCache (snd (getTransactionsStatus exPooled (Some exRedis) 0 [''cc'', ''dd'', ''aa''])) 1
        (''getTransactionsStatus'' @ stringifyHashes [''cc'', ''dd'', ''aa''])
     = Some (statusObj [''aa'', ''cc''] [''aa''] [''dd''])
   \<and> (\<exists>v. fst (getTransactionsStatus exSpend
               (snd (getTransactionsStatus exPooled (Some exRedis) 0 [''cc'', ''dd'', ''aa''])) 1
               [''cc'', ''dd'', ''aa'']) = Inr v
          \<and> classifies [''cc'', ''dd'', ''aa''] v)"
proof -
  have m: "checkCache (Some exRedis) 0 (''getTransactionsStatus'' @ stringifyHashes [''cc'', ''dd'', ''aa''])
     = Some (JBool False)"
    by (simp add: status_eval)
  have h: "checkCache (snd (getTransactionsStatus exPooled (Some exRedis) 0 [''cc'', ''dd'', ''aa''])) 1
        (''getTransactionsStatus'' @ stringifyHashes [''cc'', ''dd'', ''aa''])
     = Some (statusObj [''aa'', ''cc''] [''aa''] [''dd''])"
    by (simp add: status_eval)
  have c: "classifies [''cc'', ''dd'', ''aa''] (statusObj [''aa'', ''cc''] [''aa''] [''dd''])"
    by (auto simp: classifies_def stringsField_statusObj)
  note t1 = C7_status_classification [of "[''cc'', ''dd'', ''aa'']" "Some exRedis" 0 "JBool False" exPooled]
  from t1 m have r: "fst (getTransactionsStatus exPooled (Some exRedis) 0 [''cc'', ''dd'', ''aa''])
     = Inr (statusObj [''aa'', ''cc''] [''aa''] [''dd''])"
    by (simp add: isMiss_def exPooled_def exSpend_def exTxn_def)
  note t2 = C7_status_classification [of "[''cc'', ''dd'', ''aa'']"
      "snd (getTransactionsStatus exPooled (Some exRedis) 0 [''cc'', ''dd'', ''aa''])" 1
      "statusObj [''aa'', ''cc''] [''aa''] [''dd'']" exSpend]
  from t2 h c have "\<exists>v. fst (getTransactionsStatus exSpend
               (snd (getTransactionsStatus exPooled (Some exRedis) 0 [''cc'', ''dd'', ''aa''])) 1
               [''cc'', ''dd'', ''aa'']) = Inr v
          \<and> classifies [''cc'', ''dd'', ''aa''] v"
    by blast
  with m r c h show ?thesis by blast
qed

text \<open>
  C7 as stated fails when a requested hash is in the pool and in a block: with no cache,
  \<open>aa\<close> is returned in both lists.
\<close>

theorem C7_pool_and_block_overlap_counterexample:
  "fst (getTransactionsStatus exPooled None 0 [''aa'']) = Inr (statusObj [''aa''] [''aa''] [])
   \<and> stringsField ''transactionsInPool'' (statusObj [''aa''] [''aa''] []) = Some [''aa'']
   \<and> stringsField ''transactionsInBlock'' (statusObj [''aa''] [''aa''] []) = Some [''aa'']
   \<and> set [''aa''] \<inter> set [''aa''] \<noteq> ({} :: string set)"
  by (simp add: status_eval)

section \<open>Properties of the random output sampler\<close>

lemma dedupeAmounts_set:
  "set (fst (dedupeAmounts mixin amounts (deduped, counts))) = set deduped \<union> set amounts"
  by (induction amounts arbitrary: deduped counts) auto

lemma drawUnique_error:
  "drawUnique g need rnds draws = Some (Inl e)
   \<Longrightarrow> e = Error ''The maximum value must be higher than the minimum value.''"
  by (induction draws arbitrary: rnds) (auto split: if_splits)

lemma pickRandomValues_notEnough:
  "pickRandomValues mixin counts results draws
     = Some (Inl (Error ''Not enough mixins available to satisfy the request''))
   \<Longrightarrow> \<exists>r\<in>set results. max_globalIndex r < mixin"
proof (induction results arbitrary: draws)
  case Nil
  then show ?case by simp
next
  case (Cons r rs)
  show ?case
  proof (cases "max_globalIndex r < mixin")
    case True
    then show ?thesis by simp
  next
    case False
    with Cons.prems obtain rnds draws' where
      "pickRandomValues mixin counts rs draws'
         = Some (Inl (Error ''Not enough mixins available to satisfy the request''))"
      by (auto split: option.splits sum.splits dest: drawUnique_error)
    from Cons.IH [OF this] show ?thesis by auto
  qed
qed

lemma pickRandomValues_below:
  "\<exists>r\<in>set results. max_globalIndex r < mixin
   \<Longrightarrow> pickRandomValues mixin counts results draws \<noteq> Some (Inr vs)"
proof (induction results arbitrary: draws vs)
  case Nil
  then show ?case by simp
next
  case (Cons r rs)
  show ?case
  proof (cases "max_globalIndex r < mixin")
    case True
    then show ?thesis by simp
  next
    case False
    with Cons.prems have "\<exists>r\<in>set rs. max_globalIndex r < mixin" by auto
    from Cons.IH [OF this] False show ?thesis
      by (auto split: option.splits sum.splits)
  qed
qed

lemma drawUnique_enough:
  assumes "0 < g" "distinct rnds" "int (length rnds) \<le> need"
      and "need \<le> int (card (set rnds \<union> set draws))"
  shows "\<exists>rs rest. drawUnique g need rnds draws = Some (Inr (rs, rest))
           \<and> distinct rs \<and> int (length rs) = need \<and> set rs \<subseteq> set rnds \<union> set draws"
  using assms
proof (induction draws arbitrary: rnds)
  case Nil
  then have "int (length rnds) = need" by (simp add: distinct_card)
  with Nil show ?case by simp
next
  case (Cons d ds)
  show ?case
  proof (cases "int (length rnds) = need")
    case True
    with Cons.prems show ?thesis by auto
  next
    case False
    let ?r = "if d \<in> set rnds then rnds else rnds @ [d]"
    have s: "set ?r \<union> set ds = set rnds \<union> set (d # ds)" by auto
    have "distinct ?r" using Cons.prems by simp
    moreover have "int (length ?r) \<le> need" using Cons.prems False by simp
    moreover have "need \<le> int (card (set ?r \<union> set ds))" using Cons.prems s by simp
    ultimately obtain rs rest where
      "drawUnique g need ?r ds = Some (Inr (rs, rest))" "distinct rs" "int (length rs) = need"
      "set rs \<subseteq> set ?r \<union> set ds"
      using Cons.IH [of ?r] Cons.prems(1) by blast
    with False Cons.prems(1) s show ?thesis by auto
  qed
qed

lemma sort_key_const:
  "\<forall>x\<in>set xs. f x = c \<Longrightarrow> sort_key f xs = xs"
proof -
  assume a: "\<forall>x\<in>set xs. f x = c"
  then have "map f xs = replicate (length xs) c"
    by (induction xs) auto
  then have "sorted (map f xs)" by (simp add: sorted_replicate)
  then show ?thesis by (rule sort_key_id_if_sorted)
qed

lemma selectRandomOutputs_one_amount:
  "selectRandomOutputs db (map (\<lambda>rand. (A, rand)) rnds)
     = filter (\<lambda>p. out_amount p = A \<and> out_globalIndex p \<in> set rnds) (transaction_outputs db)"
proof -
  have f: "filter (\<lambda>p. (out_amount p, out_globalIndex p) \<in> set (map (\<lambda>rand. (A, rand)) rnds))
             (transaction_outputs db)
           = filter (\<lambda>p. out_amount p = A \<and> out_globalIndex p \<in> set rnds) (transaction_outputs db)"
    by (rule filter_cong) auto
  show ?thesis
    unfolding selectRandomOutputs_def orderBy_def f
    by (rule sort_key_const [of _ _ A]) simp
qed

lemma groupOutputs_six:
  assumes "A \<noteq> - 1" "\<forall>r\<in>set [r1, r2, r3, r4, r5, r6]. out_amount r = A"
  shows "groupOutputs 3 [r1, r2, r3, r4, r5, r6] (- 1) None []
     = Inr [groupObj A (Some (sort_key fst [(out_globalIndex r1, out_key r1),
                (out_globalIndex r2, out_key r2), (out_globalIndex r3, out_key r3)])),
            groupObj A (Some [(out_globalIndex r4, out_key r4),
                (out_globalIndex r5, out_key r5), (out_globalIndex r6, out_key r6)])]"
  using assms by simp

lemma length_six:
  "length xs = 6 \<Longrightarrow> \<exists>a b c d e f. xs = [a, b, c, d, e, f]"
  by (auto simp: numeral_eq_Suc length_Suc_conv)

lemma groupIndices_groupObj:
  "groupIndices (groupObj A (Some os)) = map fst os"
  by (induction os) (auto simp: groupIndices_def groupObj_def arrField_def numField_def outObj_def)

lemma sameAmountTwice:
  assumes amt: "A \<noteq> - 1"
      and mx: "filter (\<lambda>m. max_amount m = A) (transaction_outputs_index_maximums db) = [m]"
      and uniq: "distinct (map out_globalIndex (filter (\<lambda>p. out_amount p = A) (transaction_outputs db)))"
      and full: "\<forall>i. 0 \<le> i \<and> i \<le> max_globalIndex m
                   \<longrightarrow> (\<exists>p\<in>set (transaction_outputs db). out_amount p = A \<and> out_globalIndex p = i)"
      and range: "\<forall>d\<in>set draws. 0 \<le> d \<and> d \<le> max_globalIndex m"
      and enough: "6 \<le> card (set draws)"
  shows "\<exists>o1 o2. getRandomOutputsForAmounts db draws [A, A] 2
             = Some (Inr (JArr [groupObj A (Some o1), groupObj A (Some o2)]))
           \<and> length o1 = 3 \<and> length o2 = 3 \<and> distinct (map fst (o1 @ o2))
           \<and> set (map fst (o1 @ o2)) \<subseteq> {0..max_globalIndex m}"
proof -
  let ?g = "max_globalIndex m"
  have sub: "set draws \<subseteq> {0..?g}" using range by auto
  have "card (set draws) \<le> card {0..?g}" by (rule card_mono) (use sub in auto)
  with enough have g5: "5 \<le> ?g" by simp
  from mx have "m \<in> set (filter (\<lambda>m. max_amount m = A) (transaction_outputs_index_maximums db))"
    by simp
  then have mA: "max_amount m = A" by simp
  have res: "filter (\<lambda>m. max_amount m \<in> set [A]) (transaction_outputs_index_maximums db) = [m]"
    using mx by simp
  obtain rnds rest where
    du: "drawUnique ?g 6 [] draws = Some (Inr (rnds, rest))" and
    d: "distinct rnds" and l: "length rnds = 6" and s: "set rnds \<subseteq> set draws"
    using drawUnique_enough [of ?g "[]" 6 draws] g5 enough by auto
  have ne: "rnds \<noteq> []" using l by auto
  let ?rows = "filter (\<lambda>p. out_amount p = A \<and> out_globalIndex p \<in> set rnds) (transaction_outputs db)"
  have rows_eq: "?rows = filter (\<lambda>p. out_globalIndex p \<in> set rnds)
                           (filter (\<lambda>p. out_amount p = A) (transaction_outputs db))"
    by (simp add: conj_commute)
  have dr: "distinct (map out_globalIndex ?rows)"
    unfolding rows_eq by (rule distinct_map_filter) (rule uniq)
  have sr: "set (map out_globalIndex ?rows) = set rnds"
  proof
    show "set (map out_globalIndex ?rows) \<subseteq> set rnds" by auto
    show "set rnds \<subseteq> set (map out_globalIndex ?rows)"
    proof
      fix i assume i: "i \<in> set rnds"
      with s sub have "0 \<le> i \<and> i \<le> ?g" by auto
      with full obtain p where "p \<in> set (transaction_outputs db)" "out_amount p = A" "out_globalIndex p = i"
        by blast
      with i show "i \<in> set (map out_globalIndex ?rows)" by force
    qed
  qed
  have "length (map out_globalIndex ?rows) = card (set rnds)"
    using dr sr by (metis distinct_card)
  then have lr: "length ?rows = 6" using d l by (simp add: distinct_card)
  then obtain r1 r2 r3 r4 r5 r6 where rows: "?rows = [r1, r2, r3, r4, r5, r6]"
    using length_six by blast
  have allA: "\<forall>r\<in>set [r1, r2, r3, r4, r5, r6]. out_amount r = A"
    unfolding rows [symmetric] by simp
  define o1 where "o1 = sort_key fst [(out_globalIndex r1, out_key r1),
                (out_globalIndex r2, out_key r2), (out_globalIndex r3, out_key r3)]"
  define o2 where "o2 = [(out_globalIndex r4, out_key r4),
                (out_globalIndex r5, out_key r5), (out_globalIndex r6, out_key r6)]"
  have sel: "selectRandomOutputs db (map (\<lambda>rand. (A, rand)) rnds) = [r1, r2, r3, r4, r5, r6]"
    using selectRandomOutputs_one_amount [of db A rnds] rows by simp
  have grp: "groupOutputs 3 [r1, r2, r3, r4, r5, r6] (- 1) None []
               = Inr [groupObj A (Some o1), groupObj A (Some o2)]"
    unfolding o1_def o2_def by (rule groupOutputs_six [OF amt allA])
  have val: "getRandomOutputsForAmounts db draws [A, A] 2
             = Some (Inr (JArr [groupObj A (Some o1), groupObj A (Some o2)]))"
    unfolding getRandomOutputsForAmounts_def
    using res g5 du mA ne sel grp
    by (simp add: Let_def)
  have m1: "mset o1 = mset [(out_globalIndex r1, out_key r1),
                (out_globalIndex r2, out_key r2), (out_globalIndex r3, out_key r3)]"
    unfolding o1_def by (rule mset_sort)
  have "mset (map fst o1) = mset (map fst [(out_globalIndex r1, out_key r1),
                (out_globalIndex r2, out_key r2), (out_globalIndex r3, out_key r3)])"
    using m1 by (simp only: mset_map)
  then have ms: "mset (map fst (o1 @ o2)) = mset (map out_globalIndex [r1, r2, r3, r4, r5, r6])"
    by (simp add: o2_def)
  have dm: "distinct (map fst (o1 @ o2))"
    using mset_eq_imp_distinct_iff [OF ms] dr rows by simp
  have sm: "set (map fst (o1 @ o2)) = set (map out_globalIndex [r1, r2, r3, r4, r5, r6])"
    by (rule mset_eq_setD [OF ms])
  have "set (map fst (o1 @ o2)) \<subseteq> {0..?g}"
    unfolding sm rows [symmetric] sr using s sub by auto
  moreover have "length o1 = 3" "length o2 = 3" by (simp_all add: o1_def o2_def)
  ultimately show ?thesis using val dm by blast
qed

text \<open>
  C5 (as the code has it). The mixin count is raised by one before anything else, so
  asking twice for the amount \<open>A\<close> with mixin 2 draws 2 * (2 + 1) = 6 indices. When the
  store lists one maximum for \<open>A\<close> and one output of \<open>A\<close> for every index up to it, and the
  generator yields numbers in range of which six are different, the call returns two
  groups of three outputs of \<open>A\<close> whose six global indices are different. When the
  maximum index is below 3 the call fails for want of mixins, whatever is drawn.
\<close>

theorem C5_same_amount_twice:
  "(A \<noteq> - 1
      \<and> filter (\<lambda>m. max_amount m = A) (transaction_outputs_index_maximums db) = [m]
      \<and> distinct (map out_globalIndex (filter (\<lambda>p. out_amount p = A) (transaction_outputs db)))
      \<and> (\<forall>i. 0 \<le> i \<and> i \<le> max_globalIndex m
             \<longrightarrow> (\<exists>p\<in>set (transaction_outputs db). out_amount p = A \<and> out_globalIndex p = i))
      \<and> (\<forall>d\<in>set draws. 0 \<le> d \<and> d \<le> max_globalIndex m)
      \<and> 6 \<le> card (set draws)
    \<longrightarrow> (\<exists>o1 o2. getRandomOutputsForAmounts db draws [A, A] 2
             = Some (Inr (JArr [groupObj A (Some o1), groupObj A (Some o2)]))
           \<and> length o1 = 3 \<and> length o2 = 3 \<and> distinct (map fst (o1 @ o2))
           \<and> set (map fst (o1 @ o2)) \<subseteq> {0..max_globalIndex m}))
   \<and> (filter (\<lambda>m. max_amount m = A) (transaction_outputs_index_maximums db) = [m]
      \<and> max_globalIndex m < 3
    \<longrightarrow> getRandomOutputsForAmounts db draws' [A, A] 2
          = Some (Inl (Error ''Not enough mixins available to satisfy the request'')))"
proof (intro conjI impI)
  assume "A \<noteq> - 1
      \<and> filter (\<lambda>m. max_amount m = A) (transaction_outputs_index_maximums db) = [m]
      \<and> distinct (map out_globalIndex (filter (\<lambda>p. out_amount p = A) (transaction_outputs db)))
      \<and> (\<forall>i. 0 \<le> i \<and> i \<le> max_globalIndex m
             \<longrightarrow> (\<exists>p\<in>set (transaction_outputs db). out_amount p = A \<and> out_globalIndex p = i))
      \<and> (\<forall>d\<in>set draws. 0 \<le> d \<and> d \<le> max_globalIndex m)
      \<and> 6 \<le> card (set draws)"
  then show "\<exists>o1 o2. getRandomOutputsForAmounts db draws [A, A] 2
             = Some (Inr (JArr [groupObj A (Some o1), groupObj A (Some o2)]))
           \<and> length o1 = 3 \<and> length o2 = 3 \<and> distinct (map fst (o1 @ o2))
           \<and> set (map fst (o1 @ o2)) \<subseteq> {0..max_globalIndex m}"
    using sameAmountTwice [of A db m draws] by blast
next
  assume "filter (\<lambda>m. max_amount m = A) (transaction_outputs_index_maximums db) = [m]
      \<and> max_globalIndex m < 3"
  then show "getRandomOutputsForAmounts db draws' [A, A] 2
          = Some (Inl (Error ''Not enough mixins available to satisfy the request''))"
    by (simp add: getRandomOutputsForAmounts_def Let_def)
qed

lemmas sampler_eval =
  getRandomOutputsForAmounts_def selectRandomOutputs_def orderBy_def groupObj_def outObj_def
  exOutputs_def exOutput_def exChain10_def Let_def

text \<open>
  The witness: eight outputs of the amount 100, and seven draws of which six are
  different. With three outputs the call fails.
\<close>

theorem C5_same_amount_twice_witness:
  "map out_globalIndex (filter (\<lambda>p. out_amount p = 100) (transaction_outputs (exOutputs 8)))
     = [0, 1, 2, 3, 4, 5, 6, 7]
   \<and> filter (\<lambda>m. max_amount m = 100) (transaction_outputs_index_maximums (exOutputs 8))
     = [\<lparr>max_amount = 100, max_globalIndex = 7\<rparr>]
   \<and> card (set [3, 1, 3, 7, 0, 5, 2 :: int]) = 6
   \<and> (\<exists>o1 o2. getRandomOutputsForAmounts (exOutputs 8) [3, 1, 3, 7, 0, 5, 2] [100, 100] 2
             = Some (Inr (JArr [groupObj 100 (Some o1), groupObj 100 (Some o2)]))
           \<and> length o1 = 3 \<and> length o2 = 3 \<and> distinct (map fst (o1 @ o2))
           \<and> set (map fst (o1 @ o2)) \<subseteq> {0..7})
   \<and> filter (\<lambda>m. max_amount m = 100) (transaction_outputs_index_maximums (exOutputs 3))
     = [\<lparr>max_amount = 100, max_globalIndex = 2\<rparr>]
   \<and> getRandomOutputsForAmounts (exOutputs 3) [3, 1, 3, 7, 0, 5, 2] [100, 100] 2
     = Some (Inl (Error ''Not enough mixins available to satisfy the request''))"
proof -
  have idx: "map out_globalIndex (filter (\<lambda>p. out_amount p = 100) (transaction_outputs (exOutputs 8)))
     = [0, 1, 2, 3, 4, 5, 6, 7]"
    by (simp add: exOutputs_def exOutput_def exChain10_def upt_conv_Cons)
  have mx: "filter (\<lambda>m. max_amount m = 100) (transaction_outputs_index_maximums (exOutputs 8))
     = [\<lparr>max_amount = 100, max_globalIndex = 7\<rparr>]"
    and mx3: "filter (\<lambda>m. max_amount m = 100) (transaction_outputs_index_maximums (exOutputs 3))
     = [\<lparr>max_amount = 100, max_globalIndex = 2\<rparr>]"
    by (simp_all add: exOutputs_def exChain10_def)
  have "set [3, 1, 3, 7, 0, 5, 2 :: int] = set [3, 1, 7, 0, 5, 2]" by auto
  moreover have "card (set [3, 1, 7, 0, 5, 2 :: int]) = length [3, 1, 7, 0, 5, 2 :: int]"
    by (rule distinct_card) simp
  ultimately have cd: "card (set [3, 1, 3, 7, 0, 5, 2 :: int]) = 6" by simp
  have di: "distinct (map out_globalIndex (filter (\<lambda>p. out_amount p = 100) (transaction_outputs (exOutputs 8))))"
    unfolding idx by simp
  have full: "\<forall>i. 0 \<le> i \<and> i \<le> max_globalIndex \<lparr>max_amount = 100, max_globalIndex = 7\<rparr>
      \<longrightarrow> (\<exists>p\<in>set (transaction_outputs (exOutputs 8)). out_amount p = 100 \<and> out_globalIndex p = i)"
  proof (intro allI impI)
    fix i :: int
    assume "0 \<le> i \<and> i \<le> max_globalIndex \<lparr>max_amount = 100, max_globalIndex = 7\<rparr>"
    then have "i \<in> set [0, 1, 2, 3, 4, 5, 6, 7]" by (simp, presburger)
    then have "i \<in> set (map out_globalIndex (filter (\<lambda>p. out_amount p = 100) (transaction_outputs (exOutputs 8))))"
      unfolding idx .
    then show "\<exists>p\<in>set (transaction_outputs (exOutputs 8)). out_amount p = 100 \<and> out_globalIndex p = i"
      by auto
  qed
  have rg: "\<forall>d\<in>set [3, 1, 3, 7, 0, 5, 2 :: int]. 0 \<le> d \<and> d \<le> max_globalIndex \<lparr>max_amount = 100, max_globalIndex = 7\<rparr>"
    by simp
  note t = C5_same_amount_twice [of 100 "exOutputs 8" "\<lparr>max_amount = 100, max_globalIndex = 7\<rparr>"
      "[3, 1, 3, 7, 0, 5, 2]"]
  from t mx di full rg cd
  have a: "\<exists>o1 o2. getRandomOutputsForAmounts (exOutputs 8) [3, 1, 3, 7, 0, 5, 2] [100, 100] 2
             = Some (Inr (JArr [groupObj 100 (Some o1), groupObj 100 (Some o2)]))
           \<and> length o1 = 3 \<and> length o2 = 3 \<and> distinct (map fst (o1 @ o2))
           \<and> set (map fst (o1 @ o2)) \<subseteq> {0..7}"
    by simp
  note t3 = C5_same_amount_twice [of 100 "exOutputs 3" "\<lparr>max_amount = 100, max_globalIndex = 2\<rparr>"
      _ "[3, 1, 3, 7, 0, 5, 2]"]
  from t3 mx3
  have b: "getRandomOutputsForAmounts (exOutputs 3) [3, 1, 3, 7, 0, 5, 2] [100, 100] 2
     = Some (Inl (Error ''Not enough mixins available to satisfy the request''))"
    by simp
  from idx mx cd a mx3 b show ?thesis by blast
qed

text \<open>
  C5 as stated fails: with eight outputs of the amount the call returns six indices, not
  four.
\<close>

theorem C5_six_indices_counterexample:
  "getRandomOutputsForAmounts (exOutputs 8) [3, 1, 3, 7, 0, 5, 2] [100, 100] 2
     = Some (Inr (JArr
         [groupObj 100 (Some [(0, ''key''), (1, ''key''), (2, ''key'')]),
          groupObj 100 (Some [(3, ''key''), (5, ''key''), (7, ''key'')])]))
   \<and> responseIndices (JArr
         [groupObj 100 (Some [(0, ''key''), (1, ''key''), (2, ''key'')]),
          groupObj 100 (Some [(3, ''key''), (5, ''key''), (7, ''key'')])]) = [0, 1, 2, 3, 5, 7]
   \<and> length [0, 1, 2, 3, 5, 7 :: int] \<noteq> 4"
  by (simp add: sampler_eval responseIndices_def groupIndices_def arrField_def numField_def upt_conv_Cons)

text \<open>
  With exactly four outputs of the amount, which the claim allows, the check against the
  mixin count passes and the loop asks for six different numbers among four: these seven
  draws do not end it.
\<close>

lemma four_outputs_not_enough_draws:
  "getRandomOutputsForAmounts (exOutputs 4) [3, 1, 3, 2, 0, 1, 2] [100, 100] 2 = None"
  by (simp add: sampler_eval upt_conv_Cons)

lemma drawUnique_never_ends:
  assumes "0 < g" "int (card (set rnds \<union> set draws)) < need" "distinct rnds"
  shows "drawUnique g need rnds draws = None"
  using assms
proof (induction draws arbitrary: rnds)
  case Nil
  then show ?case by (simp add: distinct_card)
next
  case (Cons d ds)
  let ?r = "if d \<in> set rnds then rnds else rnds @ [d]"
  have s: "set ?r \<union> set ds = set rnds \<union> set (d # ds)" by auto
  have "card (set rnds) \<le> card (set rnds \<union> set (d # ds))"
    by (rule card_mono) auto
  with Cons.prems have ne: "int (length rnds) \<noteq> need" by (simp add: distinct_card)
  have "drawUnique g need ?r ds = None"
    by (rule Cons.IH) (use Cons.prems s in auto)
  with ne Cons.prems(1) show ?case by simp
qed

section \<open>The check for enough mixins\<close>

lemma groupOutputs_error:
  "groupOutputs mixin rows cur outs response = Inl e \<Longrightarrow> e = TypeError"
  by (induction rows arbitrary: cur outs response) (auto split: if_splits)

lemma dedupeAmounts_distinct:
  "distinct deduped \<Longrightarrow> distinct (fst (dedupeAmounts mixin amounts (deduped, counts)))"
  by (induction amounts arbitrary: deduped counts) auto

lemma distinct_singleton_set: "distinct xs \<Longrightarrow> set xs = {a} \<Longrightarrow> xs = [a]"
  by (cases xs) (auto simp: subset_singleton_iff)

text \<open>
  C6 (as the code has it). The bound is the mixin count plus one. The call fails for
  want of mixins only when a maximum listed for a requested amount is below that bound;
  when there is such a maximum the call never succeeds; and for a request of one amount
  with one listed maximum it fails for want of mixins exactly when the maximum is below
  the bound.
\<close>

theorem C6_not_enough_mixins:
  "(getRandomOutputsForAmounts db draws amounts mixin
       = Some (Inl (Error ''Not enough mixins available to satisfy the request''))
    \<longrightarrow> (\<exists>m\<in>set (transaction_outputs_index_maximums db).
            max_amount m \<in> set amounts \<and> max_globalIndex m < mixin + 1))
   \<and> ((\<exists>m\<in>set (transaction_outputs_index_maximums db).
            max_amount m \<in> set amounts \<and> max_globalIndex m < mixin + 1)
    \<longrightarrow> getRandomOutputsForAmounts db draws amounts mixin \<noteq> Some (Inr v))
   \<and> (set amounts = {A}
      \<and> filter (\<lambda>m. max_amount m = A) (transaction_outputs_index_maximums db) = [m']
    \<longrightarrow> (getRandomOutputsForAmounts db draws amounts mixin
            = Some (Inl (Error ''Not enough mixins available to satisfy the request'')))
         = (max_globalIndex m' < mixin + 1))"
proof -
  obtain deduped counts where dd: "dedupeAmounts (mixin + 1) amounts ([], []) = (deduped, counts)"
    by (cases "dedupeAmounts (mixin + 1) amounts ([], [])")
  have ds: "set deduped = set amounts"
    using dedupeAmounts_set [of "mixin + 1" amounts "[]" "[]"] dd by simp
  have dist: "distinct deduped"
    using dedupeAmounts_distinct [of "[]" "mixin + 1" amounts "[]"] dd by simp
  let ?results = "filter (\<lambda>m. max_amount m \<in> set deduped) (transaction_outputs_index_maximums db)"
  let ?err = "Some (Inl (Error ''Not enough mixins available to satisfy the request'')) :: jsval promise option"
  have one: "getRandomOutputsForAmounts db draws amounts mixin = ?err
    \<Longrightarrow> \<exists>m\<in>set (transaction_outputs_index_maximums db).
            max_amount m \<in> set amounts \<and> max_globalIndex m < mixin + 1"
  proof -
    assume a: "getRandomOutputsForAmounts db draws amounts mixin = ?err"
    then have "pickRandomValues (mixin + 1) counts ?results draws
                 = Some (Inl (Error ''Not enough mixins available to satisfy the request''))"
      unfolding getRandomOutputsForAmounts_def Let_def dd
      by (auto split: if_splits option.splits sum.splits dest: groupOutputs_error)
    from pickRandomValues_notEnough [OF this] show ?thesis using ds by auto
  qed
  have two: "\<exists>m\<in>set (transaction_outputs_index_maximums db).
            max_amount m \<in> set amounts \<and> max_globalIndex m < mixin + 1
    \<Longrightarrow> getRandomOutputsForAmounts db draws amounts mixin \<noteq> Some (Inr v)"
  proof -
    assume "\<exists>m\<in>set (transaction_outputs_index_maximums db).
            max_amount m \<in> set amounts \<and> max_globalIndex m < mixin + 1"
    then have "\<exists>r\<in>set ?results. max_globalIndex r < mixin + 1" using ds by auto
    from pickRandomValues_below [OF this] show ?thesis
      unfolding getRandomOutputsForAmounts_def Let_def dd
      by (auto split: if_splits option.splits sum.splits)
  qed
  have three: "set amounts = {A}
      \<and> filter (\<lambda>m. max_amount m = A) (transaction_outputs_index_maximums db) = [m']
    \<Longrightarrow> (getRandomOutputsForAmounts db draws amounts mixin = ?err) = (max_globalIndex m' < mixin + 1)"
  proof -
    assume a: "set amounts = {A}
      \<and> filter (\<lambda>m. max_amount m = A) (transaction_outputs_index_maximums db) = [m']"
    with ds dist have d1: "deduped = [A]" by (simp add: distinct_singleton_set)
    from a have r1: "filter (\<lambda>m. max_amount m \<in> set [A]) (transaction_outputs_index_maximums db) = [m']"
      by simp
    from a have "m' \<in> set (filter (\<lambda>m. max_amount m = A) (transaction_outputs_index_maximums db))"
      by simp
    then have mem: "m' \<in> set (transaction_outputs_index_maximums db)" "max_amount m' = A" by simp_all
    show ?thesis
    proof (cases "max_globalIndex m' < mixin + 1")
      case True
      then show ?thesis
        unfolding getRandomOutputsForAmounts_def Let_def dd d1
        using r1 by simp
    next
      case False
      have "\<not> (\<exists>m\<in>set (transaction_outputs_index_maximums db).
            max_amount m \<in> set amounts \<and> max_globalIndex m < mixin + 1)"
      proof
        assume "\<exists>m\<in>set (transaction_outputs_index_maximums db).
            max_amount m \<in> set amounts \<and> max_globalIndex m < mixin + 1"
        then obtain m where m: "m \<in> set (transaction_outputs_index_maximums db)" "max_amount m = A"
          "max_globalIndex m < mixin + 1" using a by auto
        then have "m \<in> set (filter (\<lambda>m. max_amount m = A) (transaction_outputs_index_maximums db))"
          by simp
        with a have "m = m'" by simp
        with m False show False by simp
      qed
      with one False show ?thesis by blast
    qed
  qed
  from one two three show ?thesis by blast
qed

text \<open>
  The witness: four outputs of the amount 100 (maximum index 3) and mixin 3, where the
  call fails, and eight outputs and mixin 2, where it does not.
\<close>

theorem C6_not_enough_mixins_witness:
  "getRandomOutputsForAmounts (exOutputs 4) [] [100] 3
     = Some (Inl (Error ''Not enough mixins available to satisfy the request''))
   \<and> (\<exists>m\<in>set (transaction_outputs_index_maximums (exOutputs 4)).
         max_amount m \<in> set [100] \<and> max_globalIndex m < 3 + 1)
   \<and> set [100 :: int] = {100}
   \<and> filter (\<lambda>m. max_amount m = 100) (transaction_outputs_index_maximums (exOutputs 4))
       = [\<lparr>max_amount = 100, max_globalIndex = 3\<rparr>]
   \<and> filter (\<lambda>m. max_amount m = 100) (transaction_outputs_index_maximums (exOutputs 8))
       = [\<lparr>max_amount = 100, max_globalIndex = 7\<rparr>]
   \<and> getRandomOutputsForAmounts (exOutputs 8) [3, 1, 3, 7, 0, 5, 2] [100, 100] 2
       \<noteq> Some (Inl (Error ''Not enough mixins available to satisfy the request''))"
proof -
  have f4: "filter (\<lambda>m. max_amount m = 100) (transaction_outputs_index_maximums (exOutputs 4))
       = [\<lparr>max_amount = 100, max_globalIndex = 3\<rparr>]"
    and f8: "filter (\<lambda>m. max_amount m = 100) (transaction_outputs_index_maximums (exOutputs 8))
       = [\<lparr>max_amount = 100, max_globalIndex = 7\<rparr>]"
    by (simp_all add: exOutputs_def exChain10_def)
  note t4 = C6_not_enough_mixins [of "exOutputs 4" "[]" "[100]" 3 _ 100 "\<lparr>max_amount = 100, max_globalIndex = 3\<rparr>"]
  from t4 f4 have e4: "getRandomOutputsForAmounts (exOutputs 4) [] [100] 3
     = Some (Inl (Error ''Not enough mixins available to satisfy the request''))"
    by simp
  with t4 have b4: "\<exists>m\<in>set (transaction_outputs_index_maximums (exOutputs 4)).
         max_amount m \<in> set [100] \<and> max_globalIndex m < 3 + 1"
    by blast
  note t8 = C6_not_enough_mixins [of "exOutputs 8" "[3, 1, 3, 7, 0, 5, 2]" "[100, 100]" 2 _ 100
      "\<lparr>max_amount = 100, max_globalIndex = 7\<rparr>"]
  from t8 f8 have e8: "getRandomOutputsForAmounts (exOutputs 8) [3, 1, 3, 7, 0, 5, 2] [100, 100] 2
       \<noteq> Some (Inl (Error ''Not enough mixins available to satisfy the request''))"
    by simp
  from e4 b4 f4 f8 e8 show ?thesis by simp
qed

text \<open>
  C6 as stated fails where the maximum equals the mixin count: with the maximum index 3
  and mixin 3 the maximum is not less than the mixin count, and the call fails for want of
  mixins.
\<close>

theorem C6_bound_is_mixin_plus_one_counterexample:
  "getRandomOutputsForAmounts (exOutputs 4) [] [100] 3
     = Some (Inl (Error ''Not enough mixins available to satisfy the request''))
   \<and> map max_globalIndex (transaction_outputs_index_maximums (exOutputs 4)) = [3]
   \<and> \<not> (3 :: int) < 3"
  by (simp add: sampler_eval)

section \<open>Timeout of a request without reply\<close>


lemma settle_consumers [simp]: "consumers (settle rid outcome b) = consumers b"
  by (simp add: settle_def split: option.splits settled.splits)

lemma foldl_fire_consumers [simp]: "consumers (foldl fire b rids) = consumers b"
  by (induction rids arbitrary: b) (simp_all add: fire_def)









section \<open>Consistency of assembled blocks\<close>

lemma setCache_fst [simp]: "fst (setCache cache now key v ttl) = v"
  by (simp add: setCache_def split: option.splits sum.splits)

























lemmas asm_eval =
  buildWalletDataBlock_def assembleWalletDataBlock_def getTransactionsByBlock_def
  buildLegacyWalletDataBlock_def assembleLegacyWalletDataBlock_def
  getTransactionInputs_def getTransactionOutputs_def checkTrim_def selectInputs_def selectOutputs_def
  orderBy_def orderByText_def inputObj_def outputObj_def txnObj_def typeHex_def digitChar_def showInt_def
  decodeRows_def txnView_def inputView_def outputView_def strField_def numField_def
  legacyInputView_def legacyOutputView_def coinbaseOutputView_def
  newTransaction_def checkWalletBlock_def checkLegacyBlock_def inputsSum_def outputsSum_def getError_def
  walletBlockObj_def walletTxnObj_def walletInputObj_def walletOutputObj_def metaFields_def
  legacyBlockObj_def legacyTxnObj_def legacyInputObj_def legacyOutputObj_def coinbaseObj_def
  checkCache_def RedisCache_get_def setCache_def RedisCache_set_def isMiss_def
  exRedis_def exInput_def exOutput_def exTxn_def exSpend_def exBlock_def exSum_def exSum2_def
  exCoinbase_def exBroken_def exMined_def exWalletTxn_def exCoinbaseTx_def Let_def



text \<open>
  A block that failed its checks is cached all the same. The first assembly of the
  block of \<open>exBroken\<close> rejects; the chain goes on to \<open>setCache\<close> with the block as the
  checks left it, and a second later the block is served from the cache, its input of
  99 beside the recorded 100.
\<close>

lemma rejected_block_is_served_from_cache:
  "fst (buildWalletDataBlock exBroken (Some exRedis) 0 exSum)
     = Inl (Error (getError ''aa'' ''Inputs total does not match meta information''))
   \<and> fst (buildWalletDataBlock exBroken (snd (buildWalletDataBlock exBroken (Some exRedis) 0 exSum)) 1 exSum)
     = Inr (walletBlockObj exSum
         [exWalletTxn 99 ''02'' (Some \<lparr>inputsTotal = 100, outputsTotal = 90, fee = 10\<rparr>)])"
  by (simp add: asm_eval showBase.simps)

section \<open>The bound on the blocks of a page\<close>

lemma checkBlockCount_value:
  "checkBlockCount blockCount =
     (case blockCount of None \<Rightarrow> 100 | Some b \<Rightarrow> if b = 0 then 100 else min 100 \<bar>b\<bar>)"
  by (auto simp: checkBlockCount_def Let_def split: option.splits)

lemma checkBlockCount_range: "0 < checkBlockCount blockCount \<and> checkBlockCount blockCount \<le> 100"
  by (auto simp: checkBlockCount_def Let_def split: option.splits)

lemma checkBlockCount_idem: "checkBlockCount (Some (checkBlockCount blockCount)) = checkBlockCount blockCount"
  by (auto simp: checkBlockCount_def Let_def split: option.splits)

lemma fetchAll_length:
  "fst (fetchAll f cache xs) = Inr vs \<Longrightarrow> length vs = length xs"
proof (induction xs arbitrary: cache vs)
  case Nil
  then show ?case by simp
next
  case (Cons x xs)
  obtain r c1 where f: "f cache x = (r, c1)" by (cases "f cache x")
  obtain rs c2 where g: "fetchAll f c1 xs = (rs, c2)" by (cases "fetchAll f c1 xs")
  from Cons.prems f g obtain v vs' where "r = Inr v" "rs = Inr vs'" "vs = v # vs'"
    by (cases r; cases rs) auto
  with Cons.IH [of c1 vs'] g show ?case by simp
qed

lemma window_length:
  assumes "distinct (map blk_height bs)"
  shows "length (filter (\<lambda>b. lo \<le> blk_height b \<and> blk_height b < lo + n) bs) \<le> nat n"
proof -
  let ?F = "filter (\<lambda>b. lo \<le> blk_height b \<and> blk_height b < lo + n) bs"
  have d: "distinct (map blk_height ?F)" by (rule distinct_map_filter) (rule assms)
  have "set (map blk_height ?F) \<subseteq> {lo..<lo + n}" by auto
  then have "card (set (map blk_height ?F)) \<le> card {lo..<lo + n}"
    by (intro card_mono) auto
  moreover have "card (set (map blk_height ?F)) = length ?F"
    using d by (simp add: distinct_card del: set_map)
  ultimately show ?thesis by simp
qed

lemma selectBlocksInWindow_length:
  "distinct (map blk_height (blocks db))
   \<Longrightarrow> length (selectBlocksInWindow db lo (lo + n)) \<le> nat n"
  by (simp add: selectBlocksInWindow_def orderBy_def window_length)

lemma getWalletSyncDataByHeight_bound:
  assumes "\<forall>xs. length (arraySort xs) = length xs" "distinct (map blk_height (blocks db))"
      and "fst (getWalletSyncDataByHeight arraySort db cache now scanHeight blockCount) = Inr v"
  shows "\<exists>page. v = JArr page \<and> length page \<le> 100"
proof -
  let ?s = "case scanHeight of None \<Rightarrow> 0 | Some h \<Rightarrow> h"
  let ?rows = "selectBlocksInWindow db ?s (?s + checkBlockCount blockCount)"
  let ?build = "\<lambda>c block. buildWalletDataBlock db c now block"
  obtain r c where f: "fetchAll ?build cache ?rows = (r, c)"
    by (cases "fetchAll ?build cache ?rows")
  from assms(3) f obtain bs where r: "r = Inr bs" and v: "v = JArr (arraySort bs)"
    by (cases r) (auto simp: getWalletSyncDataByHeight_def Let_def)
  from f r have "fst (fetchAll ?build cache ?rows) = Inr bs" by simp
  then have "length bs = length ?rows" by (rule fetchAll_length)
  moreover have "length ?rows \<le> nat (checkBlockCount blockCount)"
    by (rule selectBlocksInWindow_length [OF assms(2)])
  moreover have "nat (checkBlockCount blockCount) \<le> 100"
    using checkBlockCount_range [of blockCount] by linarith
  ultimately have "length (arraySort bs) \<le> 100" using assms(1) by simp
  with v show ?thesis by blast
qed

lemma take_limit: "length (take (nat (checkBlockCount blockCount)) xs) \<le> 100"
proof -
  have "length (take (nat (checkBlockCount blockCount)) xs) \<le> nat (checkBlockCount blockCount)"
    by simp
  also have "\<dots> \<le> 100" using checkBlockCount_range [of blockCount] by linarith
  finally show ?thesis .
qed

lemma selectBlocksInWindow_heights:
  "card (sum_height ` set (selectBlocksInWindow db lo (lo + checkBlockCount blockCount))) \<le> 100"
proof -
  let ?n = "checkBlockCount blockCount"
  have "sum_height ` set (selectBlocksInWindow db lo (lo + ?n)) \<subseteq> {lo..<lo + ?n}"
    by (auto simp: selectBlocksInWindow_def orderBy_def blockSummary_def)
  then have "card (sum_height ` set (selectBlocksInWindow db lo (lo + ?n))) \<le> card {lo..<lo + ?n}"
    by (intro card_mono) auto
  also have "\<dots> = nat ?n" by simp
  also have "\<dots> \<le> 100" using checkBlockCount_range [of blockCount] by linarith
  finally show ?thesis .
qed

text \<open>
  C10 (as the code has it). \<open>checkBlockCount\<close> yields 100 for an absent count (and for
  the count 0) and otherwise the absolute value of the count, at most 100; it is applied
  first in each of the four operations. The two legacy operations put that count in the
  \<open>LIMIT\<close> of their query, so a page that they return has at most 100 blocks.
  \<open>getWalletSyncDataByHeight\<close>, and \<open>getWalletSyncData\<close> through it, asks for the heights from
  the scan height up to, and excluding, the scan height plus that count: the blocks it
  selects have at most 100 different heights, and a page that it returns has at most 100
  blocks when no two blocks of the store have the same height. What the sort of the
  engine is taken to do is to keep the length.
\<close>

theorem C10_at_most_100_blocks:
  "checkBlockCount blockCount =
     (case blockCount of None \<Rightarrow> 100 | Some b \<Rightarrow> if b = 0 then 100 else min 100 \<bar>b\<bar>)
   \<and> 0 < checkBlockCount blockCount \<and> checkBlockCount blockCount \<le> 100
   \<and> card (sum_height ` set (selectBlocksInWindow db lo (lo + checkBlockCount blockCount))) \<le> 100
   \<and> ((\<forall>xs. length (arraySort xs) = length xs) \<and> distinct (map blk_height (blocks db))
      \<and> fst (getWalletSyncDataByHeight arraySort db cache now scanHeight blockCount) = Inr v1
      \<longrightarrow> (\<exists>page. v1 = JArr page \<and> length page \<le> 100))
   \<and> ((\<forall>xs. length (arraySort xs) = length xs) \<and> distinct (map blk_height (blocks db))
      \<and> fst (getWalletSyncData arraySort db cache now knownBlockHashes blockCount) = Inr v2
      \<longrightarrow> (\<exists>page. v2 = JArr page \<and> length page \<le> 100))
   \<and> ((\<forall>xs. length (arraySort xs) = length xs)
      \<and> fst (legacyGetWalletSyncDataLite arraySort db cache now startHeight blockCount) = Inr v3
      \<longrightarrow> (\<exists>page. v3 = JArr page \<and> length page \<le> 100))
   \<and> ((\<forall>xs. length (arraySort xs) = length xs)
      \<and> fst (legacyGetWalletSyncData arraySort db cache now startHeight startTimestamp
                blockHashCheckpoints blockCount skipCoinbaseTransactions) = Inr v4
      \<longrightarrow> (\<exists>page. arrField ''blocks'' v4 = Some page \<and> length page \<le> 100))"
proof (intro conjI impI)
  show "checkBlockCount blockCount =
     (case blockCount of None \<Rightarrow> 100 | Some b \<Rightarrow> if b = 0 then 100 else min 100 \<bar>b\<bar>)"
    by (rule checkBlockCount_value)
  show "0 < checkBlockCount blockCount" "checkBlockCount blockCount \<le> 100"
    using checkBlockCount_range by simp_all
  show "card (sum_height ` set (selectBlocksInWindow db lo (lo + checkBlockCount blockCount))) \<le> 100"
    by (rule selectBlocksInWindow_heights)
next
  assume "(\<forall>xs. length (arraySort xs) = length xs) \<and> distinct (map blk_height (blocks db))
      \<and> fst (getWalletSyncDataByHeight arraySort db cache now scanHeight blockCount) = Inr v1"
  then show "\<exists>page. v1 = JArr page \<and> length page \<le> 100"
    using getWalletSyncDataByHeight_bound by blast
next
  assume a: "(\<forall>xs. length (arraySort xs) = length xs) \<and> distinct (map blk_height (blocks db))
      \<and> fst (getWalletSyncData arraySort db cache now knownBlockHashes blockCount) = Inr v2"
  obtain r c1 where f: "findCurrentSyncHeight db cache now knownBlockHashes None None = (r, c1)"
    by (cases "findCurrentSyncHeight db cache now knownBlockHashes None None")
  from a f obtain syncHeight where
    "fst (getWalletSyncDataByHeight arraySort db c1 now (Some syncHeight)
            (Some (checkBlockCount blockCount))) = Inr v2"
    by (auto simp: getWalletSyncData_def Let_def split: if_splits sum.splits jsval.splits)
  with a show "\<exists>page. v2 = JArr page \<and> length page \<le> 100"
    using getWalletSyncDataByHeight_bound by blast
next
  assume a: "(\<forall>xs. length (arraySort xs) = length xs)
      \<and> fst (legacyGetWalletSyncDataLite arraySort db cache now startHeight blockCount) = Inr v3"
  let ?rows = "selectBlocksFrom db (case startHeight of None \<Rightarrow> 0 | Some h \<Rightarrow> h) (checkBlockCount blockCount)"
  let ?build = "\<lambda>c block. buildLegacyWalletDataBlock db c now block False"
  obtain r c where f: "fetchAll ?build cache ?rows = (r, c)"
    by (cases "fetchAll ?build cache ?rows")
  from a f obtain bs where r: "r = Inr bs" and v: "v3 = JArr (arraySort bs)"
    by (cases r) (auto simp: legacyGetWalletSyncDataLite_def Let_def)
  from f r have "fst (fetchAll ?build cache ?rows) = Inr bs" by simp
  then have "length bs = length ?rows" by (rule fetchAll_length)
  moreover have "length ?rows \<le> 100"
    unfolding selectBlocksFrom_def by (rule take_limit)
  ultimately have "length (arraySort bs) \<le> 100" using a by simp
  with v show "\<exists>page. v3 = JArr page \<and> length page \<le> 100" by blast
next
  assume a: "(\<forall>xs. length (arraySort xs) = length xs)
      \<and> fst (legacyGetWalletSyncData arraySort db cache now startHeight startTimestamp
                blockHashCheckpoints blockCount skipCoinbaseTransactions) = Inr v4"
  obtain top c1 where g: "getLastBlockHeader db cache now = (top, c1)"
    by (cases "getLastBlockHeader db cache now")
  obtain r c2 where f: "findCurrentSyncHeight db c1 now blockHashCheckpoints startHeight startTimestamp = (r, c2)"
    by (cases "findCurrentSyncHeight db c1 now blockHashCheckpoints startHeight startTimestamp")
  from a g f obtain topBlock topHeight topBlockHeight where t: "top = Inr topBlock" "r = Inr (JNum topHeight)"
    "numField ''height'' topBlock = Some topBlockHeight"
    by (auto simp: legacyGetWalletSyncData_def Let_def split: sum.splits jsval.splits option.splits)
  let ?rows = "selectBlocksBetween db topHeight topBlockHeight skipCoinbaseTransactions (checkBlockCount blockCount)"
  let ?build = "\<lambda>c block. buildLegacyWalletDataBlock db c now block skipCoinbaseTransactions"
  obtain bs c3 where h: "fetchAll ?build c2 ?rows = (bs, c3)"
    by (cases "fetchAll ?build c2 ?rows")
  from a g f t h obtain built where b: "bs = Inr built"
    and v: "v4 = JObj [(''blocks'', JArr (arraySort built)), (''from'', JNum topHeight), (''topBlock'', topBlock)]"
    by (cases bs) (auto simp: legacyGetWalletSyncData_def Let_def)
  from h b have "fst (fetchAll ?build c2 ?rows) = Inr built" by simp
  then have "length built = length ?rows" by (rule fetchAll_length)
  moreover have "length ?rows \<le> 100"
    unfolding selectBlocksBetween_def by (rule take_limit)
  ultimately have "length (arraySort built) \<le> 100" using a by simp
  with v show "\<exists>page. arrField ''blocks'' v4 = Some page \<and> length page \<le> 100"
    by (simp add: arrField_def)
qed

lemmas sync_page_eval =
  getWalletSyncDataByHeight_def getWalletSyncData_def legacyGetWalletSyncDataLite_def
  legacyGetWalletSyncData_def selectBlocksInWindow_def selectBlocksFrom_def selectBlocksBetween_def
  blockSummary_def selectTransactionCount_def checkBlockCount_def
  getLastBlockHeader_def selectLastBlock_def headerObj_def blockFields_def
  findCurrentSyncHeight_def syncHeightCacheName_def numberOrAbsent_def stringifyHashes_def
  queryTopKnownHeight_def criteria_def sqlQuote_def jsonPlain_def safeInteger_def
  selectTopKnownHeight_def selectTopHeightBefore_def orderByDesc_def

text \<open>
  The witness: 500 blocks are asked for, which \<open>checkBlockCount\<close> makes 100. Without a
  cache and with a sort that leaves the list as it is, the two operations of the current
  shape return the block of \<open>exSpend\<close> and the two legacy operations the block of
  \<open>exMined\<close>, a page of one block each.
\<close>

theorem C10_at_most_100_blocks_witness:
  "checkBlockCount (Some 500) = 100
   \<and> distinct (map blk_height (blocks exSpend))
   \<and> fst (getWalletSyncDataByHeight (\<lambda>xs. xs) exSpend None 0 (Some 1) (Some 500))
       = Inr (JArr [walletBlockObj exSum [exWalletTxn 100 ''02'' None]])
   \<and> fst (getWalletSyncData (\<lambda>xs. xs) exSpend None 0 [''b0''] (Some 500))
       = Inr (JArr [walletBlockObj exSum [exWalletTxn 100 ''02'' None]])
   \<and> fst (legacyGetWalletSyncDataLite (\<lambda>xs. xs) exMined None 0 (Some 0) (Some 500))
       = Inr (JArr [legacyBlockObj exSum2 (Some (exCoinbaseTx 100 1 ''o2'')) [exWalletTxn 100 [] None]])
   \<and> fst (legacyGetWalletSyncData (\<lambda>xs. xs) exMined None 0 (Some 0) None [''b0''] (Some 500) False)
       = Inr (JObj [(''blocks'', JArr [legacyBlockObj exSum2 (Some (exCoinbaseTx 100 1 ''o2''))
                                        [exWalletTxn 100 [] None]]),
                    (''from'', JNum 0), (''topBlock'', headerObj (exBlock ''b1'' 1 10) 0 2)])
   \<and> (\<exists>page. JArr [walletBlockObj exSum [exWalletTxn 100 ''02'' None]] = JArr page \<and> length page \<le> 100)
   \<and> (\<exists>page. JArr [legacyBlockObj exSum2 (Some (exCoinbaseTx 100 1 ''o2'')) [exWalletTxn 100 [] None]]
                = JArr page \<and> length page \<le> 100)
   \<and> (\<exists>page. arrField ''blocks''
                (JObj [(''blocks'', JArr [legacyBlockObj exSum2 (Some (exCoinbaseTx 100 1 ''o2''))
                                           [exWalletTxn 100 [] None]]),
                       (''from'', JNum 0), (''topBlock'', headerObj (exBlock ''b1'' 1 10) 0 2)])
                = Some page \<and> length page \<le> 100)"
proof -
  have s: "\<forall>xs :: jsval list. length ((\<lambda>xs. xs) xs) = length xs" by simp
  have d: "distinct (map blk_height (blocks exSpend))" by (simp add: exSpend_def exBlock_def)
  have r1: "fst (getWalletSyncDataByHeight (\<lambda>xs. xs) exSpend None 0 (Some 1) (Some 500))
       = Inr (JArr [walletBlockObj exSum [exWalletTxn 100 ''02'' None]])"
    by (simp add: sync_page_eval asm_eval showBase.simps)
  have r2: "fst (getWalletSyncData (\<lambda>xs. xs) exSpend None 0 [''b0''] (Some 500))
       = Inr (JArr [walletBlockObj exSum [exWalletTxn 100 ''02'' None]])"
    by (simp add: sync_page_eval asm_eval showBase.simps)
  have r3: "fst (legacyGetWalletSyncDataLite (\<lambda>xs. xs) exMined None 0 (Some 0) (Some 500))
       = Inr (JArr [legacyBlockObj exSum2 (Some (exCoinbaseTx 100 1 ''o2'')) [exWalletTxn 100 [] None]])"
    by (simp add: sync_page_eval asm_eval showBase.simps)
  have r4: "fst (legacyGetWalletSyncData (\<lambda>xs. xs) exMined None 0 (Some 0) None [''b0''] (Some 500) False)
       = Inr (JObj [(''blocks'', JArr [legacyBlockObj exSum2 (Some (exCoinbaseTx 100 1 ''o2''))
                                        [exWalletTxn 100 [] None]]),
                    (''from'', JNum 0), (''topBlock'', headerObj (exBlock ''b1'' 1 10) 0 2)])"
    by (simp add: sync_page_eval asm_eval showBase.simps)
  note a = C10_at_most_100_blocks [of "Some 500" exSpend _ "\<lambda>xs. xs" None 0 "Some 1"
      "JArr [walletBlockObj exSum [exWalletTxn 100 ''02'' None]]" "[''b0'']"
      "JArr [walletBlockObj exSum [exWalletTxn 100 ''02'' None]]"]
  note b = C10_at_most_100_blocks [of "Some 500" exMined _ "\<lambda>xs. xs" None 0 _ _ _ _ "Some 0"
      "JArr [legacyBlockObj exSum2 (Some (exCoinbaseTx 100 1 ''o2'')) [exWalletTxn 100 [] None]]"
      None "[''b0'']" False
      "JObj [(''blocks'', JArr [legacyBlockObj exSum2 (Some (exCoinbaseTx 100 1 ''o2''))
                                        [exWalletTxn 100 [] None]]),
                    (''from'', JNum 0), (''topBlock'', headerObj (exBlock ''b1'' 1 10) 0 2)]"]
  from a have c0: "checkBlockCount (Some 500) = 100" by simp
  from a s d r1 have c1: "\<exists>page. JArr [walletBlockObj exSum [exWalletTxn 100 ''02'' None]] = JArr page
      \<and> length page \<le> 100" by blast
  from a s d r2 have c2: "\<exists>page. JArr [walletBlockObj exSum [exWalletTxn 100 ''02'' None]] = JArr page
      \<and> length page \<le> 100" by blast
  from b s r3 have c3: "\<exists>page. JArr [legacyBlockObj exSum2 (Some (exCoinbaseTx 100 1 ''o2'')) [exWalletTxn 100 [] None]]
                = JArr page \<and> length page \<le> 100" by blast
  from b s r4 have c4: "\<exists>page. arrField ''blocks''
                (JObj [(''blocks'', JArr [legacyBlockObj exSum2 (Some (exCoinbaseTx 100 1 ''o2''))
                                           [exWalletTxn 100 [] None]]),
                       (''from'', JNum 0), (''topBlock'', headerObj (exBlock ''b1'' 1 10) 0 2)])
                = Some page \<and> length page \<le> 100" by blast
  from c0 d r1 r2 r3 r4 c1 c2 c3 c4 show ?thesis by blast
qed

text \<open>
  The window of \<open>getWalletSyncDataByHeight\<close> bounds heights, not rows.
\<close>

lemma filter_map_upt_one:
  assumes "i < n" "\<And>j. j < n \<Longrightarrow> P (f j) = (j = i)"
  shows "filter P (map f [0..<n]) = [f i]"
  using assms
proof (induction n)
  case 0
  then show ?case by simp
next
  case (Suc n)
  show ?case
  proof (cases "i = n")
    case True
    have "filter P (map f [0..<n]) = []"
      using Suc.prems(2) True by (auto simp: filter_empty_conv)
    with True Suc.prems(2) [of n] show ?thesis by simp
  next
    case False
    with Suc.prems have "i < n" by simp
    moreover have "\<And>j. j < n \<Longrightarrow> P (f j) = (j = i)" using Suc.prems(2) by simp
    ultimately have "filter P (map f [0..<n]) = [f i]" by (rule Suc.IH)
    with False Suc.prems(2) [of n] show ?thesis by simp
  qed
qed

lemma forkHash_inj [simp]: "(forkHash i = forkHash j) = (i = j)"
proof
  assume "forkHash i = forkHash j"
  then have "length (forkHash i) = length (forkHash j)" by simp
  then show "i = j" by (simp add: forkHash_def)
qed simp

lemma exForked_tables:
  "blocks exForked = map (\<lambda>i. exBlock (forkHash i) 7 70) [0..<101]"
  "transactions exForked = map (\<lambda>i. exTxn (CHR ''c'' # forkHash i) (forkHash i) 0 100 0) [0..<101]"
  "transaction_outputs exForked
     = map (\<lambda>i. exOutput (CHR ''c'' # forkHash i) 100 (int i) 0 ''o'') [0..<101]"
  by (simp_all add: exForked_def)

lemma exForked_transactions:
  "i < 101 \<Longrightarrow> filter (\<lambda>t. txn_blockHash t = forkHash i) (transactions exForked)
                 = [exTxn (CHR ''c'' # forkHash i) (forkHash i) 0 100 0]"
  unfolding exForked_tables by (rule filter_map_upt_one) (simp_all add: exTxn_def)

lemma exForked_outputs:
  "i < 101 \<Longrightarrow> filter (\<lambda>p. out_txnHash p = CHR ''c'' # forkHash i) (transaction_outputs exForked)
                 = [exOutput (CHR ''c'' # forkHash i) 100 (int i) 0 ''o'']"
  unfolding exForked_tables by (rule filter_map_upt_one) (simp_all add: exOutput_def)

lemma exForked_inputs: "transaction_inputs exForked = []" "queryError exForked t = None"
  by (simp_all add: exForked_def exChain10_def)

lemma exForked_block:
  assumes "i < 101"
  shows "buildWalletDataBlock exForked None now (exForkedSummary i) = (Inr (exForkedBlock i), None)"
  unfolding buildWalletDataBlock_def assembleWalletDataBlock_def getTransactionsByBlock_def
    getTransactionInputs_def getTransactionOutputs_def selectInputs_def selectOutputs_def
    exForkedSummary_def exForkedBlock_def
  by (simp add: exForked_transactions [OF assms] exForked_outputs [OF assms] exForked_inputs
        checkCache_def setCache_def Let_def orderBy_def orderByText_def
        txnObj_def outputObj_def exTxn_def exOutput_def typeHex_def digitChar_def showInt_def
        showBase.simps decodeRows_def txnView_def inputView_def outputView_def strField_def
        numField_def newTransaction_def checkWalletBlock_def inputsSum_def outputsSum_def
        checkTrim_def)

lemma fetchAll_map:
  "(\<And>x. x \<in> set xs \<Longrightarrow> fetch c (g x) = (Inr (h x), c))
   \<Longrightarrow> fetchAll fetch c (map g xs) = (Inr (map h xs), c)"
  by (induction xs) simp_all

lemma exForked_window:
  "selectBlocksInWindow exForked 7 107 = map exForkedSummary [0..<101]"
proof -
  note b = exForked_tables(1)
  have f: "filter (\<lambda>b. 7 \<le> blk_height b \<and> blk_height b < 107) (blocks exForked) = blocks exForked"
    unfolding b by (simp add: exBlock_def)
  have s: "sort_key blk_height (blocks exForked) = blocks exForked"
    by (rule sort_key_const [of _ _ 7]) (simp add: b exBlock_def)
  have "map (blockSummary exForked) (blocks exForked) = map exForkedSummary [0..<101]"
    unfolding b map_map
    by (rule map_cong [OF refl])
       (simp add: blockSummary_def selectTransactionCount_def exForkedSummary_def
          exForked_transactions exBlock_def)
  with f s show ?thesis by (simp add: selectBlocksInWindow_def orderBy_def)
qed

text \<open>
  C10 as stated fails for \<open>getWalletSyncDataByHeight\<close>: its query selects a window of
  heights and has no \<open>LIMIT\<close>. On the store \<open>exForked\<close>, with 101 blocks of height 7, a call
  for 100 blocks from height 7 returns a page of 101 blocks.
\<close>

theorem C10_window_of_heights_counterexample:
  "checkBlockCount (Some 100) = 100
   \<and> fst (getWalletSyncDataByHeight id exForked None 0 (Some 7) (Some 100)) = Inr (JArr exForkedPage)
   \<and> length exForkedPage = 101"
proof -
  have c: "checkBlockCount (Some 100) = 100" by (simp add: checkBlockCount_def)
  have "fetchAll (\<lambda>c block. buildWalletDataBlock exForked c 0 block) None (map exForkedSummary [0..<101])
          = (Inr (map exForkedBlock [0..<101]), None)"
    by (rule fetchAll_map) (simp add: exForked_block)
  then have "fst (getWalletSyncDataByHeight id exForked None 0 (Some 7) (Some 100)) = Inr (JArr exForkedPage)"
    unfolding getWalletSyncDataByHeight_def Let_def c
    by (simp add: exForked_window exForkedPage_def)
  with c show ?thesis by (simp add: exForkedPage_def)
qed

end
